theory Spec2Isabelle
  imports Complex_Main "HOL-Library.Log_Nat"
begin

section \<open>Values exchanged with the client, the gateway and the database\<close>

text \<open>
  Request bodies, gateway entities and stored detail blobs are JSON values. Numbers
  inside such blobs are kept as integers (gateway amounts are in paise, timestamps in
  seconds); no decision of the controller depends on them.
\<close>

datatype json =
    JNull
  | JBool bool
  | JNum int
  | JStr string
  | JArr "json list"
  | JObj "(string \<times> json) list"

text \<open>
  A JavaScript expression may also evaluate to \<^verbatim>\<open>undefined\<close>: that is \<open>None\<close> of
  \<open>json option\<close>. \<open>truthy\<close> is the conversion that \<^verbatim>\<open>if (v)\<close>, \<^verbatim>\<open>!v\<close>,
  \<^verbatim>\<open>a || b\<close> and \<^verbatim>\<open>a && b\<close> apply.
\<close>

fun truthy :: "json option \<Rightarrow> bool" where
  "truthy None = False"
| "truthy (Some JNull) = False"
| "truthy (Some (JBool b)) = b"
| "truthy (Some (JNum n)) = (n \<noteq> 0)"
| "truthy (Some (JStr s)) = (s \<noteq> [])"
| "truthy (Some (JArr xs)) = True"
| "truthy (Some (JObj kvs)) = True"

definition js_or :: "json option \<Rightarrow> json option \<Rightarrow> json option" where
  "js_or a b = (if truthy a then a else b)"

definition js_and :: "json option \<Rightarrow> json option \<Rightarrow> json option" where
  "js_and a b = (if truthy a then b else a)"

text \<open>\<^verbatim>\<open>a || 'unknown'\<close>: the result is always a defined value.\<close>

fun or_default :: "json option \<Rightarrow> json \<Rightarrow> json" where
  "or_default None d = d"
| "or_default (Some v) d = (if truthy (Some v) then v else d)"

text \<open>
  Property access \<^verbatim>\<open>v.k\<close> on a value that is neither \<^verbatim>\<open>undefined\<close> nor
  \<^verbatim>\<open>null\<close>: the member of an object, \<^verbatim>\<open>undefined\<close> on a value without that
  property.
\<close>

fun member :: "json \<Rightarrow> string \<Rightarrow> json option" where
  "member (JObj kvs) k = map_of kvs k"
| "member _ k = None"

text \<open>
  Property access where the receiver may be \<^verbatim>\<open>undefined\<close> or \<^verbatim>\<open>null\<close>: JavaScript
  throws a TypeError there, here \<open>None\<close>; \<open>Some r\<close> is the value read.
\<close>

fun get_prop :: "json option \<Rightarrow> string \<Rightarrow> json option option" where
  "get_prop None k = None"
| "get_prop (Some JNull) k = None"
| "get_prop (Some v) k = Some (member v k)"

text \<open>Truthiness of a string-typed request field that may be absent.\<close>

fun present :: "string option \<Rightarrow> bool" where
  "present None = False"
| "present (Some s) = (s \<noteq> [])"

fun str_of :: "string option \<Rightarrow> string" where
  "str_of None = ''undefined''"
| "str_of (Some s) = s"

subsection \<open>JavaScript numbers\<close>

text \<open>
  A Number is an IEEE 754 binary64 value: not-a-number, an infinity, or a finite value,
  held here by the rational it denotes. \<open>ilog2 x\<close> is the exponent \<open>e\<close> of a positive
  \<open>x\<close>, the one with \<open>2 powi e \<le> x < 2 powi (e + 1)\<close>; \<open>fl\<close> rounds a non-negative rational to the
  nearest binary64 value, ties to the even significand, with the gradual underflow of
  the format; \<open>js_times\<close> is the product of two Numbers as \<^verbatim>\<open>*\<close> computes it
  (the sign of a zero is not kept).
\<close>

datatype jsnum = NaN | PosInf | NegInf | Fin rat

definition ilog2 :: "rat \<Rightarrow> int" where
  "ilog2 x = (if 1 \<le> x then bitlen \<lfloor>x\<rfloor> - 1 else - bitlen (\<lceil>1 / x\<rceil> - 1))"

definition round_half_even :: "rat \<Rightarrow> int" where
  "round_half_even m = (let f = \<lfloor>m\<rfloor>; d = m - of_int f
     in if d < 1/2 then f else if 1/2 < d then f + 1 else if even f then f else f + 1)"

definition fl :: "rat \<Rightarrow> rat" where
  "fl x = (if x = 0 then 0
           else let q = (2::rat) powi (max (ilog2 x) (-1022) - 52)
                in of_int (round_half_even (x / q)) * q)"

definition fl_num :: "rat \<Rightarrow> jsnum" where
  "fl_num x = (if 0 \<le> x
     then (if (2::rat) ^ 1024 \<le> fl x then PosInf else Fin (fl x))
     else (if (2::rat) ^ 1024 \<le> fl (- x) then NegInf else Fin (- fl (- x))))"

fun js_times :: "jsnum \<Rightarrow> jsnum \<Rightarrow> jsnum" where
  "js_times (Fin a) (Fin b) = fl_num (a * b)"
| "js_times NaN _ = NaN"
| "js_times _ NaN = NaN"
| "js_times PosInf (Fin b) = (if b = 0 then NaN else if 0 < b then PosInf else NegInf)"
| "js_times NegInf (Fin b) = (if b = 0 then NaN else if 0 < b then NegInf else PosInf)"
| "js_times (Fin a) PosInf = (if a = 0 then NaN else if 0 < a then PosInf else NegInf)"
| "js_times (Fin a) NegInf = (if a = 0 then NaN else if 0 < a then NegInf else PosInf)"
| "js_times PosInf PosInf = PosInf"
| "js_times PosInf NegInf = NegInf"
| "js_times NegInf PosInf = NegInf"
| "js_times NegInf NegInf = PosInf"

text \<open>
  \<^verbatim>\<open>Math.round\<close>: the integer nearest to the argument, a tie going to the larger one;
  infinities and not-a-number are returned as they are.
\<close>

fun Math_round :: "jsnum \<Rightarrow> jsnum" where
  "Math_round (Fin x) = Fin (of_int \<lfloor>x + 1/2\<rfloor>)"
| "Math_round n = n"

text \<open>\<^verbatim>\<open>!amount\<close>, \<^verbatim>\<open>isNaN(amount)\<close> and \<^verbatim>\<open>amount <= 0\<close> on a Number that may be absent.\<close>

fun num_falsy :: "jsnum option \<Rightarrow> bool" where
  "num_falsy None = True"
| "num_falsy (Some NaN) = True"
| "num_falsy (Some (Fin x)) = (x = 0)"
| "num_falsy (Some _) = False"

fun isNaN :: "jsnum \<Rightarrow> bool" where
  "isNaN NaN = True"
| "isNaN _ = False"

fun le_zero :: "jsnum \<Rightarrow> bool" where
  "le_zero NaN = False"
| "le_zero PosInf = False"
| "le_zero NegInf = True"
| "le_zero (Fin x) = (x \<le> 0)"

section \<open>The stored records\<close>

text \<open>
  Modelled from the spec: the Mongoose schemas \<^verbatim>\<open>user/models/Payment.js\<close> and
  \<^verbatim>\<open>user/models/Order.js\<close> are not among the sources. The records below hold the
  fields that the payment controller reads and writes, with the statuses the
  specification lists. A field that a document may lack is an option. The id of an
  order, and the \<^verbatim>\<open>orderId\<close> of a payment record that refers to it, are ObjectIds
  (\<^verbatim>\<open>admin/routes/paymentRoutes.js\<close> builds and populates them as such), held here by
  their text.
\<close>

datatype payment_status = Pending | Completed | Failed | Refunded

datatype order_status = OrderPending | OrderConfirmed | OrderDelivered | OrderCancelled

record payment =
  p_id :: nat
  p_orderId :: string
  p_userId :: string
  razorpayOrderId :: string
  razorpayPaymentId :: "json option"
  razorpaySignature :: "string option"
  p_amount :: jsnum
  p_currency :: string
  p_status :: payment_status
  paymentMethod :: string
  paymentDetails :: "json option"
  p_error :: "json option"
  refundDetails :: "json option"

record order =
  o_id :: string
  orderNumber :: string
  o_status :: order_status
  pay_method :: "string option"
  pay_status :: payment_status
  pay_razorpayOrderId :: "string option"
  pay_razorpayPaymentId :: "json option"
  pay_razorpaySignature :: "string option"
  pay_amount :: "jsnum option"
  pay_paymentMethod :: "string option"
  pay_details :: "json option"
  pay_error :: "json option"

text \<open>
  A notification as \<open>createNotification\<close> receives it. The message text and the
  amount in rupees (\<^verbatim>\<open>payment.amount / 100\<close> printed into a template string) are
  left out; \<open>n_event\<close> says which of the three messages it is.
\<close>

datatype notice = PaymentReceived | PaymentFailed | RefundProcessed

record notification =
  n_type :: string
  n_event :: notice
  n_paymentId :: "json option"
  n_orderId :: string
  n_orderNumber :: string
  n_status :: string

text \<open>The argument of \<^verbatim>\<open>razorpay.orders.create\<close> and the order the gateway answers with.\<close>

record gateway_order_request =
  req_amount :: jsnum
  req_currency :: string
  req_receipt :: string

record gateway_order =
  go_id :: string
  go_amount :: jsnum
  go_currency :: string

text \<open>
  A failed gateway call throws: an error of the gateway's API, which carries an
  \<^verbatim>\<open>error\<close> object with an optional description, or any other error.
\<close>

datatype gateway_error = ApiError "string option" | OtherError

text \<open>
  The state that the controller acts on: the three collections, the calls made to the
  gateway's order creation, and the labels written with \<^verbatim>\<open>console.error\<close>.
\<close>

record store =
  orders :: "order list"
  payments :: "payment list"
  notifications :: "notification list"
  gateway_calls :: "gateway_order_request list"
  console_error :: "string list"

text \<open>
  The collaborators: the keyed hash of \<^verbatim>\<open>crypto\<close> (key, message, hexadecimal digest),
  the two secrets of the process environment (absent when not configured), the gateway
  client, whose calls may fail (\<open>Inl\<close>), the notification collection, whose
  \<^verbatim>\<open>save\<close> may fail (\<open>False\<close>), and the cast of a string to an ObjectId. A query
  or an update by an order id that the database layer cannot cast (\<open>None\<close>) throws a
  CastError instead of looking for a document; \<open>Some i\<close> is the id that the string
  denotes, in the text by which the records here hold it (two strings may denote one
  id: the hexadecimal digits of an ObjectId are read in either case).
\<close>

record env =
  hmac_sha256 :: "string \<Rightarrow> string \<Rightarrow> string"
  RAZORPAY_KEY_SECRET :: "string option"
  RAZORPAY_WEBHOOK_SECRET :: "string option"
  payments_fetch :: "string \<Rightarrow> gateway_error + (string \<times> json) list"
  orders_create :: "gateway_order_request \<Rightarrow> gateway_error + gateway_order"
  notification_save :: "notification \<Rightarrow> bool"
  castObjectId :: "string \<Rightarrow> string option"

subsection \<open>Queries and updates\<close>

text \<open>
  \<^verbatim>\<open>findOne\<close> returns the first document that matches, \<^verbatim>\<open>findOneAndUpdate\<close> and
  \<^verbatim>\<open>findByIdAndUpdate\<close> change the first document that matches and no other.
\<close>

fun update_first :: "('a \<Rightarrow> bool) \<Rightarrow> ('a \<Rightarrow> 'a) \<Rightarrow> 'a list \<Rightarrow> 'a list" where
  "update_first P f [] = []"
| "update_first P f (x # xs) = (if P x then f x # xs else x # update_first P f xs)"

definition log_error :: "string \<Rightarrow> store \<Rightarrow> store" where
  "log_error l st = st\<lparr>console_error := console_error st @ [l]\<rparr>"

text \<open>
  A filter value taken from a webhook entity may be \<^verbatim>\<open>undefined\<close> or \<^verbatim>\<open>null\<close>;
  the database then matches the documents that lack the field.
\<close>

fun matches_str :: "string option \<Rightarrow> json option \<Rightarrow> bool" where
  "matches_str stored None = (stored = None)"
| "matches_str stored (Some JNull) = (stored = None)"
| "matches_str stored (Some (JStr s)) = (stored = Some s)"
| "matches_str stored (Some _) = False"

fun matches_json :: "json option \<Rightarrow> json option \<Rightarrow> bool" where
  "matches_json stored None = (stored = None \<or> stored = Some JNull)"
| "matches_json stored (Some JNull) = (stored = None \<or> stored = Some JNull)"
| "matches_json stored (Some v) = (stored = Some v)"

section \<open>Synchronous payment verification\<close>

text \<open>
  The fields of the request body are strings, or absent. The calls that may throw are
  the keyed hash without a secret, the gateway's fetch, and the update of the order by
  an \<^verbatim>\<open>order_id\<close> that is no ObjectId; each ends in the \<^verbatim>\<open>catch\<close> of the handler.
  The last one comes after the payment record was updated, and that update stays.
\<close>

record verify_request =
  razorpay_order_id :: "string option"
  razorpay_payment_id :: "string option"
  razorpay_signature :: "string option"
  payment_method :: "string option"
  order_id :: "string option"

text \<open>The responses of \<open>verifyPayment\<close>, by status code and body.\<close>

datatype verify_response =
    MissingFields "string list"
  | InvalidSignature "string option" string
  | PaymentNotFound
  | VerifySuccess payment string
  | VerificationFailed

definition missingFields :: "verify_request \<Rightarrow> string list" where
  "missingFields r =
     (if present (razorpay_order_id r) then [] else [''razorpay_order_id'']) @
     (if present (razorpay_payment_id r) then [] else [''razorpay_payment_id'']) @
     (if present (razorpay_signature r) then [] else [''razorpay_signature'']) @
     (if present (order_id r) then [] else [''order_id''])"

text \<open>The signed string \<^verbatim>\<open>razorpay_order_id + "|" + razorpay_payment_id\<close>.\<close>

definition signed_body :: "verify_request \<Rightarrow> string" where
  "signed_body r = str_of (razorpay_order_id r) @ ''|'' @ str_of (razorpay_payment_id r)"

text \<open>
  The method stored: the client's hint or \<^verbatim>\<open>'card'\<close>, replaced when the gateway
  reports one of the methods of the chain.
\<close>

definition resolved_method :: "string option \<Rightarrow> json option \<Rightarrow> string" where
  "resolved_method hint m =
     (let chosen = (if present hint then str_of hint else ''card'')
      in if truthy m then
           (if m = Some (JStr ''upi'') \<or> m = Some (JStr ''upi_intent'') then ''upi''
            else if m = Some (JStr ''netbanking'') then ''netbanking''
            else if m = Some (JStr ''wallet'') then ''wallet''
            else if m = Some (JStr ''emi'') then ''emi''
            else if m = Some (JStr ''card'') then ''card''
            else chosen)
         else chosen)"

text \<open>The detail object, spread from at most one of four parts.\<close>

definition dot :: "json option \<Rightarrow> string \<Rightarrow> json option" where
  "dot a k = (case a of None \<Rightarrow> None | Some v \<Rightarrow> member v k)"

definition payment_details_of :: "string \<Rightarrow> (string \<times> json) list \<Rightarrow> json" where
  "payment_details_of method rp =
     (let f = map_of rp;
          unknown = JStr ''unknown''
      in JObj (
        (if method = ''upi'' then
           [(''upi'', JObj [(''vpa'',
              or_default (js_or (js_or (f ''vpa'')
                                       (js_and (f ''upi'') (dot (f ''upi'') ''vpa'')))
                                (js_and (f ''upi_intent'') (dot (f ''upi_intent'') ''vpa'')))
                         unknown)])]
         else []) @
        (if method = ''netbanking'' then
           [(''bank'', JObj [
              (''name'', or_default (js_or (f ''bank'')
                     (js_and (f ''netbanking'') (dot (f ''netbanking'') ''bank_name''))) unknown),
              (''ifsc'', or_default (js_or (f ''ifsc'')
                     (js_and (f ''netbanking'') (dot (f ''netbanking'') ''ifsc''))) unknown)])]
         else []) @
        (if method = ''wallet'' then
           [(''wallet'', JObj [(''name'',
              or_default (js_or (f ''wallet'')
                     (js_and (f ''wallet'') (dot (f ''wallet'') ''name''))) unknown)])]
         else []) @
        (if method = ''card'' then
           [(''card'', JObj [
              (''last4'', or_default (js_and (f ''card'')
                  (js_or (dot (f ''card'') ''last4'') (dot (f ''card'') ''last4_digits''))) unknown),
              (''network'', or_default (js_and (f ''card'')
                  (js_or (dot (f ''card'') ''network'') (dot (f ''card'') ''card_network''))) unknown),
              (''issuer'', or_default (js_and (f ''card'')
                  (js_or (dot (f ''card'') ''issuer'') (dot (f ''card'') ''issuer_name''))) unknown)])]
         else [])))"

definition verifyPayment :: "env \<Rightarrow> store \<Rightarrow> verify_request \<Rightarrow> verify_response \<times> store" where
  "verifyPayment e st r =
    (if missingFields r \<noteq> [] then
       (MissingFields (missingFields r), log_error ''Missing required fields:'' st)
     else case RAZORPAY_KEY_SECRET e of
       None \<Rightarrow> (VerificationFailed, log_error ''Error verifying payment:'' st)
     | Some secret \<Rightarrow>
       let expectedSignature = hmac_sha256 e secret (signed_body r) in
       if Some expectedSignature \<noteq> razorpay_signature r then
         (InvalidSignature (razorpay_signature r) expectedSignature,
          log_error ''Signature mismatch:'' st)
       else case payments_fetch e (str_of (razorpay_payment_id r)) of
         Inl err \<Rightarrow> (VerificationFailed, log_error ''Error verifying payment:'' st)
       | Inr razorpayPayment \<Rightarrow>
         let method = resolved_method (payment_method r) (map_of razorpayPayment ''method'');
             sel = (\<lambda>p. razorpayOrderId p = str_of (razorpay_order_id r))
         in case find sel (payments st) of
           None \<Rightarrow> (PaymentNotFound, log_error ''Payment record not found for order ID:'' st)
         | Some existingPayment \<Rightarrow>
           let upd = (\<lambda>p. p\<lparr>razorpayPaymentId := Some (JStr (str_of (razorpay_payment_id r))),
                             razorpaySignature := razorpay_signature r,
                             p_status := Completed,
                             paymentMethod := method,
                             paymentDetails := Some (payment_details_of method razorpayPayment)\<rparr>);
               updo = (\<lambda>d. d\<lparr>pay_status := Completed,
                              pay_razorpayPaymentId := Some (JStr (str_of (razorpay_payment_id r))),
                              pay_razorpaySignature := razorpay_signature r,
                              pay_method := Some ''razorpay'',
                              pay_paymentMethod := Some method,
                              o_status := OrderConfirmed\<rparr>)
           in case castObjectId e (str_of (order_id r)) of
                None \<Rightarrow>
                  (VerificationFailed,
                   log_error ''Error verifying payment:''
                     (st\<lparr>payments := update_first sel upd (payments st)\<rparr>))
              | Some oid \<Rightarrow>
                  (VerifySuccess (upd existingPayment) (''Payment successful via '' @ method),
                   st\<lparr>payments := update_first sel upd (payments st),
                       orders := update_first (\<lambda>d. o_id d = oid) updo (orders st)\<rparr>))"

section \<open>Webhook event processing\<close>

subsection \<open>The serialisation that is signed\<close>

text \<open>
  \<^verbatim>\<open>JSON.stringify\<close> without indentation: no white space between tokens, members in
  the order of the object, strings quoted with the escapes of the language.
\<close>

definition hex_digit :: "nat \<Rightarrow> char" where
  "hex_digit n = (''0123456789abcdef'' ! (n mod 16))"

function digits_of :: "nat \<Rightarrow> string" where
  "digits_of n = (if n < 10 then [hex_digit n] else digits_of (n div 10) @ [hex_digit (n mod 10)])"
  by pat_completeness auto
termination
  by (relation "measure id") auto

definition show_int :: "int \<Rightarrow> string" where
  "show_int i = (if i < 0 then CHR ''-'' # digits_of (nat (- i)) else digits_of (nat i))"

definition escape_char :: "char \<Rightarrow> string" where
  "escape_char c =
     (let n = of_char c :: nat in
      if n = 0x22 then [CHR 0x5C, CHR 0x22]
      else if n = 0x5C then [CHR 0x5C, CHR 0x5C]
      else if n = 0x08 then [CHR 0x5C, CHR ''b'']
      else if n = 0x0C then [CHR 0x5C, CHR ''f'']
      else if n = 0x0A then [CHR 0x5C, CHR ''n'']
      else if n = 0x0D then [CHR 0x5C, CHR ''r'']
      else if n = 0x09 then [CHR 0x5C, CHR ''t'']
      else if n < 0x20 then [CHR 0x5C, CHR ''u'', CHR ''0'', CHR ''0'',
                             hex_digit (n div 16), hex_digit n]
      else [c])"

definition quote :: "string \<Rightarrow> string" where
  "quote s = CHR 0x22 # concat (map escape_char s) @ [CHR 0x22]"

fun commas :: "string list \<Rightarrow> string" where
  "commas [] = []"
| "commas [x] = x"
| "commas (x # y # ys) = x @ '','' @ commas (y # ys)"

fun JSON_stringify :: "json \<Rightarrow> string" where
  "JSON_stringify JNull = ''null''"
| "JSON_stringify (JBool b) = (if b then ''true'' else ''false'')"
| "JSON_stringify (JNum i) = show_int i"
| "JSON_stringify (JStr s) = quote s"
| "JSON_stringify (JArr xs) = ''['' @ commas (map JSON_stringify xs) @ '']''"
| "JSON_stringify (JObj kvs) =
     ''{'' @ commas (map (\<lambda>kv. quote (fst kv) @ '':'' @ JSON_stringify (snd kv)) kvs) @ ''}''"

subsection \<open>The notification sink\<close>

text \<open>
  \<open>createNotification\<close> saves the notification; when the save fails it logs and throws
  the error again. The boolean says whether it returned (\<open>True\<close>) or threw.
\<close>

definition createNotification :: "env \<Rightarrow> store \<Rightarrow> notification \<Rightarrow> bool \<times> store" where
  "createNotification e st n =
     (if notification_save e n
      then (True, st\<lparr>notifications := notifications st @ [n]\<rparr>)
      else (False, log_error ''Error creating notification:'' st))"

subsection \<open>The three event handlers\<close>

text \<open>
  \<^verbatim>\<open>payload.payload.<kind>.entity\<close>: \<open>None\<close> when one of the property reads throws,
  \<open>Some v\<close> with the value read (possibly \<^verbatim>\<open>undefined\<close>) otherwise.
\<close>

definition entity_of :: "json \<Rightarrow> string \<Rightarrow> json option option" where
  "entity_of payload kind =
     (case get_prop (Some payload) ''payload'' of
        None \<Rightarrow> None
      | Some inner \<Rightarrow>
          (case get_prop inner kind of
             None \<Rightarrow> None
           | Some k \<Rightarrow> get_prop k ''entity''))"

definition handlePaymentCaptured :: "env \<Rightarrow> store \<Rightarrow> json \<Rightarrow> store" where
  "handlePaymentCaptured e st payload =
     (case entity_of payload ''payment'' of
        None \<Rightarrow> log_error ''Error handling payment captured:'' st
      | Some payment \<Rightarrow>
        (case get_prop payment ''order_id'' of
           None \<Rightarrow> log_error ''Error handling payment captured:'' st
         | Some oid \<Rightarrow>
           (case find (\<lambda>d. matches_str (pay_razorpayOrderId d) oid) (orders st) of
              None \<Rightarrow> log_error ''Order not found for payment:'' st
            | Some ord \<Rightarrow>
              (case createNotification e st
                      \<lparr>n_type = ''payment'', n_event = PaymentReceived,
                       n_paymentId = dot payment ''id'', n_orderId = o_id ord,
                       n_orderNumber = orderNumber ord, n_status = ''success''\<rparr> of
                 (False, st1) \<Rightarrow> log_error ''Error handling payment captured:'' st1
               | (True, st1) \<Rightarrow>
                   st1\<lparr>orders := update_first (\<lambda>d. o_id d = o_id ord)
                          (\<lambda>d. d\<lparr>pay_status := Completed,
                                  pay_razorpayPaymentId := dot payment ''id'',
                                  pay_details := payment\<rparr>) (orders st1),
                       payments := update_first (\<lambda>p. matches_str (Some (razorpayOrderId p)) oid)
                          (\<lambda>p. p\<lparr>p_status := Completed,
                                  razorpayPaymentId := dot payment ''id'',
                                  paymentDetails := payment\<rparr>) (payments st1)\<rparr>))))"

definition handlePaymentFailed :: "env \<Rightarrow> store \<Rightarrow> json \<Rightarrow> store" where
  "handlePaymentFailed e st payload =
     (case entity_of payload ''payment'' of
        None \<Rightarrow> log_error ''Error handling payment failed:'' st
      | Some payment \<Rightarrow>
        (case get_prop payment ''order_id'' of
           None \<Rightarrow> log_error ''Error handling payment failed:'' st
         | Some oid \<Rightarrow>
           (case find (\<lambda>d. matches_str (pay_razorpayOrderId d) oid) (orders st) of
              None \<Rightarrow> log_error ''Order not found for failed payment:'' st
            | Some ord \<Rightarrow>
              (case createNotification e st
                      \<lparr>n_type = ''payment'', n_event = PaymentFailed,
                       n_paymentId = dot payment ''id'', n_orderId = o_id ord,
                       n_orderNumber = orderNumber ord, n_status = ''failed''\<rparr> of
                 (False, st1) \<Rightarrow> log_error ''Error handling payment failed:'' st1
               | (True, st1) \<Rightarrow>
                   st1\<lparr>orders := update_first (\<lambda>d. o_id d = o_id ord)
                          (\<lambda>d. d\<lparr>pay_status := Failed,
                                  pay_error := dot payment ''error_description''\<rparr>) (orders st1),
                       payments := update_first (\<lambda>p. matches_str (Some (razorpayOrderId p)) oid)
                          (\<lambda>p. p\<lparr>p_status := Failed,
                                  p_error := dot payment ''error_description''\<rparr>)
                          (payments st1)\<rparr>))))"

definition handleRefundCreated :: "env \<Rightarrow> store \<Rightarrow> json \<Rightarrow> store" where
  "handleRefundCreated e st payload =
     (case entity_of payload ''refund'' of
        None \<Rightarrow> log_error ''Error handling refund created:'' st
      | Some refund \<Rightarrow>
        (case get_prop refund ''payment_id'' of
           None \<Rightarrow> log_error ''Error handling refund created:'' st
         | Some pid \<Rightarrow>
           (case find (\<lambda>p. matches_json (razorpayPaymentId p) pid) (payments st) of
              None \<Rightarrow> log_error ''Payment not found for refund:'' st
            | Some payment \<Rightarrow>
              (case find (\<lambda>d. o_id d = p_orderId payment) (orders st) of
                 None \<Rightarrow> log_error ''Order not found for refund:'' st
               | Some ord \<Rightarrow>
                 (case createNotification e st
                         \<lparr>n_type = ''payment'', n_event = RefundProcessed,
                          n_paymentId = Some (JNum (int (p_id payment))), n_orderId = o_id ord,
                          n_orderNumber = orderNumber ord, n_status = ''refunded''\<rparr> of
                    (False, st1) \<Rightarrow> log_error ''Error handling refund created:'' st1
                  | (True, st1) \<Rightarrow>
                      st1\<lparr>payments := update_first (\<lambda>p. p_id p = p_id payment)
                             (\<lambda>p. p\<lparr>p_status := Refunded, refundDetails := refund\<rparr>)
                             (payments st1)\<rparr>)))))"

subsection \<open>The endpoint\<close>

text \<open>
  The handler sees the header and \<^verbatim>\<open>req.body\<close>, the value that the JSON body parser
  of the application built from the bytes received.
\<close>

record webhook_request =
  x_razorpay_signature :: "string option"
  body :: json

datatype webhook_response = InvalidWebhookSignature | Received | WebhookProcessingFailed

definition handlePaymentWebhook :: "env \<Rightarrow> store \<Rightarrow> webhook_request \<Rightarrow> webhook_response \<times> store" where
  "handlePaymentWebhook e st r =
     (let payload = body r in
      case RAZORPAY_WEBHOOK_SECRET e of
        None \<Rightarrow> (WebhookProcessingFailed, log_error ''Error processing webhook:'' st)
      | Some secret \<Rightarrow>
        let expectedSignature = hmac_sha256 e secret (JSON_stringify payload) in
        if x_razorpay_signature r \<noteq> Some expectedSignature then
          (InvalidWebhookSignature, log_error ''Invalid webhook signature'' st)
        else case get_prop (Some payload) ''event'' of
          None \<Rightarrow> (WebhookProcessingFailed, log_error ''Error processing webhook:'' st)
        | Some event \<Rightarrow>
            if event = Some (JStr ''payment.captured'') then
              (Received, handlePaymentCaptured e st payload)
            else if event = Some (JStr ''payment.failed'') then
              (Received, handlePaymentFailed e st payload)
            else if event = Some (JStr ''refund.created'') then
              (Received, handleRefundCreated e st payload)
            else (Received, st))"

section \<open>Gateway order initiation\<close>

text \<open>
  The amount of the request body is a Number, or absent; the other fields are strings,
  or absent. The route is behind the authentication of the application, so
  \<^verbatim>\<open>req.user._id\<close> is there: \<open>user_id\<close>. Every call of the gateway's order
  creation is recorded in \<open>gateway_calls\<close>, with its argument. The lookup of the
  payment record by \<^verbatim>\<open>orderId\<close> throws when the order id is no ObjectId: that is
  after the gateway order was created, and it ends in the \<^verbatim>\<open>catch\<close>, as an error
  without the gateway's \<^verbatim>\<open>error\<close> object.
\<close>

record create_request =
  amount :: "jsnum option"
  currency :: "string option"
  orderId :: "string option"
  req_paymentMethod :: "string option"
  user_id :: string

datatype create_response =
    MissingAmountOrOrderId
  | InvalidAmount
  | OrderCreated string jsnum string string
  | InitFailed400 string
  | InitFailed500

definition createOrder :: "env \<Rightarrow> store \<Rightarrow> create_request \<Rightarrow> create_response \<times> store" where
  "createOrder e st r =
     (case amount r of
        None \<Rightarrow> (MissingAmountOrOrderId, st)
      | Some a \<Rightarrow>
        if num_falsy (Some a) \<or> \<not> present (orderId r) then (MissingAmountOrOrderId, st)
        else if isNaN a \<or> le_zero a then (InvalidAmount, st)
        else
          let cur = (case currency r of None \<Rightarrow> ''INR'' | Some c \<Rightarrow> c);
              oid = str_of (orderId r);
              amountInPaise = Math_round (js_times a (Fin 100));
              call = \<lparr>req_amount = amountInPaise, req_currency = cur, req_receipt = oid\<rparr>;
              st1 = st\<lparr>gateway_calls := gateway_calls st @ [call]\<rparr>
          in case orders_create e call of
               Inl (ApiError description) \<Rightarrow>
                 (InitFailed400 (if present description then str_of description
                                 else ''Payment initialization failed''),
                  log_error ''Detailed error in createOrder:'' st1)
             | Inl OtherError \<Rightarrow>
                 (InitFailed500, log_error ''Detailed error in createOrder:'' st1)
             | Inr razorpayOrder \<Rightarrow>
                 (case castObjectId e oid of
                    None \<Rightarrow> (InitFailed500, log_error ''Detailed error in createOrder:'' st1)
                  | Some ref \<Rightarrow>
                 let validPaymentMethod =
                       (if present (req_paymentMethod r) then str_of (req_paymentMethod r)
                        else ''card'');
                     ps = (case find (\<lambda>p. p_orderId p = ref) (payments st1) of
                             Some existingPayment \<Rightarrow>
                               update_first (\<lambda>p. p_orderId p = ref)
                                 (\<lambda>p. p\<lparr>razorpayOrderId := go_id razorpayOrder,
                                         p_amount := a,
                                         p_currency := cur,
                                         paymentMethod :=
                                           (if present (req_paymentMethod r)
                                               \<and> req_paymentMethod r \<noteq> Some ''razorpay''
                                            then validPaymentMethod else paymentMethod p)\<rparr>)
                                 (payments st1)
                           | None \<Rightarrow>
                               payments st1 @
                                 [\<lparr>p_id = length (payments st1), p_orderId = ref,
                                   p_userId = user_id r,
                                   razorpayOrderId = go_id razorpayOrder,
                                   razorpayPaymentId = None, razorpaySignature = None,
                                   p_amount = a, p_currency = cur, p_status = Pending,
                                   paymentMethod = validPaymentMethod,
                                   paymentDetails = None, p_error = None,
                                   refundDetails = None\<rparr>])
                 in (OrderCreated (go_id razorpayOrder) (go_amount razorpayOrder)
                       (go_currency razorpayOrder) validPaymentMethod,
                     st1\<lparr>payments := ps,
                         orders := update_first (\<lambda>d. o_id d = ref)
                           (\<lambda>d. d\<lparr>pay_method := Some ''razorpay'',
                                   pay_status := Pending,
                                   pay_razorpayOrderId := Some (go_id razorpayOrder),
                                   pay_amount := Some a\<rparr>) (orders st1)\<rparr>)))"

section \<open>From the bytes received to the parsed body\<close>

text \<open>
  The application installs the JSON body parser for every route, so the webhook handler
  never sees the bytes that the gateway signed. \<open>JSON_parse\<close> reads the fragment of
  JSON that the values above cover: objects and arrays, strings of ASCII characters without
  escape sequences, integers, the three literals, and white space between tokens. It answers
  \<open>None\<close> on anything else. The fuel bounds the nesting; the length of the text is
  always enough, since every nested value takes at least one character.
\<close>

definition is_ws :: "char \<Rightarrow> bool" where
  "is_ws c = (of_char c \<in> {0x20, 0x09, 0x0A, 0x0D :: nat})"

definition is_digit :: "char \<Rightarrow> bool" where
  "is_digit c = (0x30 \<le> (of_char c :: nat) \<and> (of_char c :: nat) \<le> 0x39)"

definition skip_ws :: "string \<Rightarrow> string" where
  "skip_ws s = dropWhile is_ws s"

fun parse_chars :: "string \<Rightarrow> (string \<times> string) option" where
  "parse_chars [] = None"
| "parse_chars (c # cs) =
     (if c = CHR 0x22 then Some ([], cs)
      else if c = CHR 0x5C \<or> (of_char c :: nat) < 0x20 \<or> 0x7F < (of_char c :: nat) then None
      else (case parse_chars cs of
              None \<Rightarrow> None
            | Some (t, rest) \<Rightarrow> Some (c # t, rest)))"

definition digits_value :: "string \<Rightarrow> int" where
  "digits_value ds = foldl (\<lambda>acc c. 10 * acc + (int (of_char c) - 0x30)) 0 ds"

definition parse_number :: "string \<Rightarrow> (json \<times> string) option" where
  "parse_number s =
     (let neg = (s \<noteq> [] \<and> hd s = CHR ''-'');
          t = (if neg then tl s else s);
          ds = takeWhile is_digit t;
          rest = dropWhile is_digit t
      in if ds = [] \<or> (hd ds = CHR ''0'' \<and> length ds > 1) then None
         else if rest \<noteq> [] \<and> hd rest \<in> {CHR ''.'', CHR ''e'', CHR ''E''} then None
         else Some (JNum (if neg then - digits_value ds else digits_value ds), rest))"

fun parse_value :: "nat \<Rightarrow> string \<Rightarrow> (json \<times> string) option"
and parse_elements :: "nat \<Rightarrow> string \<Rightarrow> (json list \<times> string) option"
and parse_members :: "nat \<Rightarrow> string \<Rightarrow> ((string \<times> json) list \<times> string) option"
where
  "parse_value 0 s = None"
| "parse_value (Suc n) s =
     (case skip_ws s of
        [] \<Rightarrow> None
      | c # cs \<Rightarrow>
          if c = CHR ''{'' then
            (case skip_ws cs of
               [] \<Rightarrow> None
             | d # ds \<Rightarrow>
                 if d = CHR ''}'' then Some (JObj [], ds)
                 else (case parse_members n cs of
                         None \<Rightarrow> None
                       | Some (kvs, rest) \<Rightarrow> Some (JObj kvs, rest)))
          else if c = CHR ''['' then
            (case skip_ws cs of
               [] \<Rightarrow> None
             | d # ds \<Rightarrow>
                 if d = CHR '']'' then Some (JArr [], ds)
                 else (case parse_elements n cs of
                         None \<Rightarrow> None
                       | Some (xs, rest) \<Rightarrow> Some (JArr xs, rest)))
          else if c = CHR 0x22 then
            (case parse_chars cs of
               None \<Rightarrow> None
             | Some (t, rest) \<Rightarrow> Some (JStr t, rest))
          else if take 4 (c # cs) = ''true'' then Some (JBool True, drop 4 (c # cs))
          else if take 5 (c # cs) = ''false'' then Some (JBool False, drop 5 (c # cs))
          else if take 4 (c # cs) = ''null'' then Some (JNull, drop 4 (c # cs))
          else parse_number (c # cs))"
| "parse_elements 0 s = None"
| "parse_elements (Suc n) s =
     (case parse_value n s of
        None \<Rightarrow> None
      | Some (v, rest) \<Rightarrow>
          (case skip_ws rest of
             [] \<Rightarrow> None
           | c # cs \<Rightarrow>
               if c = CHR '']'' then Some ([v], cs)
               else if c = CHR '','' then
                 (case parse_elements n cs of
                    None \<Rightarrow> None
                  | Some (vs, rest') \<Rightarrow> Some (v # vs, rest'))
               else None))"
| "parse_members 0 s = None"
| "parse_members (Suc n) s =
     (case skip_ws s of
        [] \<Rightarrow> None
      | q # qs \<Rightarrow>
          if q \<noteq> CHR 0x22 then None
          else (case parse_chars qs of
                  None \<Rightarrow> None
                | Some (k, rest) \<Rightarrow>
                    (case skip_ws rest of
                       [] \<Rightarrow> None
                     | c # cs \<Rightarrow>
                         if c \<noteq> CHR '':'' then None
                         else (case parse_value n cs of
                                 None \<Rightarrow> None
                               | Some (v, rest') \<Rightarrow>
                                   (case skip_ws rest' of
                                      [] \<Rightarrow> None
                                    | d # ds \<Rightarrow>
                                        if d = CHR ''}'' then Some ([(k, v)], ds)
                                        else if d = CHR '','' then
                                          (case parse_members n ds of
                                             None \<Rightarrow> None
                                           | Some (kvs, rest'') \<Rightarrow> Some ((k, v) # kvs, rest''))
                                        else None)))))"




section \<open>The method table as the specification words it\<close>

definition spec_method_table :: "(string \<times> string) list" where
  "spec_method_table =
     [(''upi'', ''upi''), (''upi_intent'', ''upi''), (''netbanking'', ''netbanking''),
      (''wallet'', ''wallet''), (''emi'', ''emi''), (''card'', ''card'')]"

definition spec_hint_or_card :: "string option \<Rightarrow> string" where
  "spec_hint_or_card hint = (case hint of None \<Rightarrow> ''card'' | Some h \<Rightarrow> if h = [] then ''card'' else h)"

fun spec_resolved_method :: "string option \<Rightarrow> json option \<Rightarrow> string" where
  "spec_resolved_method hint (Some (JStr g)) =
     (case map_of spec_method_table g of
        Some m \<Rightarrow> m
      | None \<Rightarrow> spec_hint_or_card hint)"
| "spec_resolved_method hint _ = spec_hint_or_card hint"

section \<open>Refunded records across an operation\<close>

text \<open>
  \<open>refunded_kept ps ps'\<close>: the collection \<open>ps'\<close> still holds every document of
  \<open>ps\<close>, at its place, and each one that was refunded is refunded.
\<close>

definition refunded_kept :: "payment list \<Rightarrow> payment list \<Rightarrow> bool" where
  "refunded_kept ps ps' =
     (length ps \<le> length ps' \<and>
      list_all2 (\<lambda>p q. p_id q = p_id p \<and> (p_status p = Refunded \<longrightarrow> p_status q = Refunded))
        ps (take (length ps) ps'))"

section \<open>Concrete runs\<close>

text \<open>
  A small world for the examples: one order with its pending payment record, a gateway
  that knows the payment \<^verbatim>\<open>pay_1\<close>, a stand-in for the keyed hash that joins key
  and message (two messages that differ get digests that differ, as with the real one
  in practice), and as the strings that cast to an ObjectId those of 24 hexadecimal
  digits, each denoting the id written with its digits in lower case.
\<close>

definition is_hex :: "char \<Rightarrow> bool" where
  "is_hex c = (is_digit c \<or> c \<in> set ''abcdefABCDEF'')"

definition hex24 :: "string \<Rightarrow> bool" where
  "hex24 s = (length s = 24 \<and> list_all is_hex s)"

definition lower_hex :: "char \<Rightarrow> char" where
  "lower_hex c =
     (if c = CHR ''A'' then CHR ''a'' else if c = CHR ''B'' then CHR ''b''
      else if c = CHR ''C'' then CHR ''c'' else if c = CHR ''D'' then CHR ''d''
      else if c = CHR ''E'' then CHR ''e'' else if c = CHR ''F'' then CHR ''f'' else c)"

definition example_cast :: "string \<Rightarrow> string option" where
  "example_cast s = (if hex24 s then Some (map lower_hex s) else None)"

definition example_hmac :: "string \<Rightarrow> string \<Rightarrow> string" where
  "example_hmac key msg = key @ ''#'' @ msg"

definition example_env :: env where
  "example_env =
     \<lparr>hmac_sha256 = example_hmac,
      RAZORPAY_KEY_SECRET = Some ''key_secret'',
      RAZORPAY_WEBHOOK_SECRET = Some ''webhook_secret'',
      payments_fetch = (\<lambda>pid. if pid = ''pay_1''
          then Inr [(''id'', JStr ''pay_1''), (''method'', JStr ''upi_intent''),
                    (''vpa'', JStr ''user@bank'')]
          else Inl (ApiError (Some ''The id provided does not exist''))),
      orders_create = (\<lambda>c. Inr \<lparr>go_id = ''order_G2'', go_amount = req_amount c,
                                go_currency = req_currency c\<rparr>),
      notification_save = (\<lambda>n. True),
      castObjectId = example_cast\<rparr>"

definition example_env_sink_down :: env where
  "example_env_sink_down = example_env\<lparr>notification_save := (\<lambda>n. False)\<rparr>"

definition example_order :: order where
  "example_order =
     \<lparr>o_id = ''64a000000000000000000001'', orderNumber = ''ORD-1'', o_status = OrderPending,
      pay_method = Some ''razorpay'', pay_status = Pending,
      pay_razorpayOrderId = Some ''order_G1'', pay_razorpayPaymentId = None,
      pay_razorpaySignature = None, pay_amount = Some (Fin 499),
      pay_paymentMethod = None, pay_details = None, pay_error = None\<rparr>"

definition example_payment :: payment where
  "example_payment =
     \<lparr>p_id = 0, p_orderId = ''64a000000000000000000001'', p_userId = ''U1'', razorpayOrderId = ''order_G1'',
      razorpayPaymentId = None, razorpaySignature = None, p_amount = Fin 499,
      p_currency = ''INR'', p_status = Pending, paymentMethod = ''card'',
      paymentDetails = None, p_error = None, refundDetails = None\<rparr>"

definition example_store :: store where
  "example_store =
     \<lparr>orders = [example_order], payments = [example_payment], notifications = [],
      gateway_calls = [], console_error = []\<rparr>"

definition example_refunded_store :: store where
  "example_refunded_store =
     example_store\<lparr>payments :=
       [example_payment\<lparr>p_status := Refunded, razorpayPaymentId := Some (JStr ''pay_1'')\<rparr>]\<rparr>"

definition example_completed_store :: store where
  "example_completed_store =
     example_store\<lparr>payments :=
       [example_payment\<lparr>p_status := Completed, razorpayPaymentId := Some (JStr ''pay_1'')\<rparr>]\<rparr>"

definition example_verify :: verify_request where
  "example_verify =
     \<lparr>razorpay_order_id = Some ''order_G1'', razorpay_payment_id = Some ''pay_1'',
      razorpay_signature = Some ''key_secret#order_G1|pay_1'',
      payment_method = Some ''card'', order_id = Some ''64a000000000000000000001''\<rparr>"

definition example_tampered :: verify_request where
  "example_tampered = example_verify\<lparr>razorpay_signature := Some ''forged''\<rparr>"

definition example_create :: create_request where
  "example_create =
     \<lparr>amount = Some (Fin 499), currency = None, orderId = Some ''64a000000000000000000002'',
      req_paymentMethod = None, user_id = ''U1''\<rparr>"


definition example_captured :: json where
  "example_captured =
     JObj [(''event'', JStr ''payment.captured''),
           (''payload'', JObj [(''payment'', JObj [(''entity'',
              JObj [(''id'', JStr ''pay_1''), (''order_id'', JStr ''order_G1''),
                    (''amount'', JNum 49900)])])])]"

definition example_captured_unknown :: json where
  "example_captured_unknown =
     JObj [(''event'', JStr ''payment.captured''),
           (''payload'', JObj [(''payment'', JObj [(''entity'',
              JObj [(''id'', JStr ''pay_9''), (''order_id'', JStr ''order_G9''),
                    (''amount'', JNum 100)])])])]"

definition example_failed :: json where
  "example_failed =
     JObj [(''event'', JStr ''payment.failed''),
           (''payload'', JObj [(''payment'', JObj [(''entity'',
              JObj [(''id'', JStr ''pay_1''), (''order_id'', JStr ''order_G1''),
                    (''amount'', JNum 49900),
                    (''error_description'', JStr ''Payment declined'')])])])]"

definition example_refund :: json where
  "example_refund =
     JObj [(''event'', JStr ''refund.created''),
           (''payload'', JObj [(''refund'', JObj [(''entity'',
              JObj [(''id'', JStr ''rfnd_1''), (''payment_id'', JStr ''pay_1''),
                    (''amount'', JNum 49900)])])])]"

text \<open>The request that carries a body, signed over its compact serialisation.\<close>

definition signed_webhook :: "json \<Rightarrow> webhook_request" where
  "signed_webhook b =
     \<lparr>x_razorpay_signature = Some (example_hmac ''webhook_secret'' (JSON_stringify b)),
      body = b\<rparr>"

section \<open>Facts about the queries and about verification\<close>

lemma update_first_none: "find P xs = None \<Longrightarrow> update_first P f xs = xs"
  by (induction xs) (auto split: if_splits)

lemma update_first_no_match: "\<forall>x\<in>set xs. \<not> P x \<Longrightarrow> update_first P f xs = xs"
  by (induction xs) auto

lemma find_update_first:
  "find P xs = Some x \<Longrightarrow> P (f x) \<Longrightarrow> find P (update_first P f xs) = Some (f x)"
  by (induction xs) (auto split: if_splits)

lemma update_first_idem:
  "(\<And>x. P x \<Longrightarrow> P (f x) \<and> f (f x) = f x) \<Longrightarrow>
   update_first P f (update_first P f xs) = update_first P f xs"
  by (induction xs) auto

lemma length_update_first [simp]: "length (update_first P f xs) = length xs"
  by (induction xs) auto

lemma log_error_frame [simp]:
  "orders (log_error l st) = orders st"
  "payments (log_error l st) = payments st"
  "notifications (log_error l st) = notifications st"
  "gateway_calls (log_error l st) = gateway_calls st"
  by (simp_all add: log_error_def)

lemma verifyPayment_missing:
  "missingFields r \<noteq> [] \<Longrightarrow>
   verifyPayment e st r = (MissingFields (missingFields r), log_error ''Missing required fields:'' st)"
  by (simp add: verifyPayment_def)

lemma verifyPayment_mismatch:
  "RAZORPAY_KEY_SECRET e = Some secret \<Longrightarrow> missingFields r = [] \<Longrightarrow>
   razorpay_signature r \<noteq> Some (hmac_sha256 e secret (signed_body r)) \<Longrightarrow>
   verifyPayment e st r =
     (InvalidSignature (razorpay_signature r) (hmac_sha256 e secret (signed_body r)),
      log_error ''Signature mismatch:'' st)"
  by (auto simp add: verifyPayment_def Let_def)

lemma verifyPayment_not_found:
  "RAZORPAY_KEY_SECRET e = Some secret \<Longrightarrow> missingFields r = [] \<Longrightarrow>
   razorpay_signature r = Some (hmac_sha256 e secret (signed_body r)) \<Longrightarrow>
   payments_fetch e (str_of (razorpay_payment_id r)) = Inr rp \<Longrightarrow>
   find (\<lambda>p. razorpayOrderId p = str_of (razorpay_order_id r)) (payments st) = None \<Longrightarrow>
   verifyPayment e st r =
     (PaymentNotFound, log_error ''Payment record not found for order ID:'' st)"
  by (simp add: verifyPayment_def Let_def)

lemma verifyPayment_found:
  "RAZORPAY_KEY_SECRET e = Some secret \<Longrightarrow> missingFields r = [] \<Longrightarrow>
   razorpay_signature r = Some (hmac_sha256 e secret (signed_body r)) \<Longrightarrow>
   payments_fetch e (str_of (razorpay_payment_id r)) = Inr rp \<Longrightarrow>
   find (\<lambda>p. razorpayOrderId p = str_of (razorpay_order_id r)) (payments st) = Some p0 \<Longrightarrow>
   castObjectId e (str_of (order_id r)) = Some oid \<Longrightarrow>
   verifyPayment e st r =
     (let method = resolved_method (payment_method r) (map_of rp ''method'');
          upd = (\<lambda>p. p\<lparr>razorpayPaymentId := Some (JStr (str_of (razorpay_payment_id r))),
                            razorpaySignature := razorpay_signature r,
                            p_status := Completed,
                            paymentMethod := method,
                            paymentDetails := Some (payment_details_of method rp)\<rparr>)
      in (VerifySuccess (upd p0) (''Payment successful via '' @ method),
          st\<lparr>payments := update_first (\<lambda>p. razorpayOrderId p = str_of (razorpay_order_id r)) upd (payments st),
              orders := update_first (\<lambda>d. o_id d = oid)
                 (\<lambda>d. d\<lparr>pay_status := Completed,
                         pay_razorpayPaymentId := Some (JStr (str_of (razorpay_payment_id r))),
                         pay_razorpaySignature := razorpay_signature r,
                         pay_method := Some ''razorpay'',
                         pay_paymentMethod := Some method,
                         o_status := OrderConfirmed\<rparr>) (orders st)\<rparr>))"
  by (simp add: verifyPayment_def Let_def)

text \<open>
  The update of the order by an \<^verbatim>\<open>order_id\<close> that is no ObjectId throws: the answer is
  the failure of the \<^verbatim>\<open>catch\<close>, and the payment record is completed already.
\<close>

lemma verifyPayment_cast_error:
  "RAZORPAY_KEY_SECRET e = Some secret \<Longrightarrow> missingFields r = [] \<Longrightarrow>
   razorpay_signature r = Some (hmac_sha256 e secret (signed_body r)) \<Longrightarrow>
   payments_fetch e (str_of (razorpay_payment_id r)) = Inr rp \<Longrightarrow>
   find (\<lambda>p. razorpayOrderId p = str_of (razorpay_order_id r)) (payments st) = Some p0 \<Longrightarrow>
   castObjectId e (str_of (order_id r)) = None \<Longrightarrow>
   verifyPayment e st r =
     (let method = resolved_method (payment_method r) (map_of rp ''method'');
          upd = (\<lambda>p. p\<lparr>razorpayPaymentId := Some (JStr (str_of (razorpay_payment_id r))),
                            razorpaySignature := razorpay_signature r,
                            p_status := Completed,
                            paymentMethod := method,
                            paymentDetails := Some (payment_details_of method rp)\<rparr>)
      in (VerificationFailed,
          log_error ''Error verifying payment:''
            (st\<lparr>payments := update_first (\<lambda>p. razorpayOrderId p = str_of (razorpay_order_id r)) upd (payments st)\<rparr>)))"
  by (simp add: verifyPayment_def Let_def)

section \<open>Verification: requests that are turned away\<close>

text \<open>
  C1. A verification request whose signature is not the keyed hash, under the gateway's
  secret, of \<^verbatim>\<open>razorpay_order_id|razorpay_payment_id\<close> is rejected and changes no
  order, no payment record and no notification. The rejection is the invalid-signature
  response whenever the four required identifiers are present; a request that lacks
  one is rejected before the signature is looked at, as missing fields.
\<close>

theorem verifyPayment_tampered_signature_frame:
  assumes "RAZORPAY_KEY_SECRET e = Some secret"
      and "razorpay_signature r \<noteq> Some (hmac_sha256 e secret (signed_body r))"
  shows "orders (snd (verifyPayment e st r)) = orders st
       \<and> payments (snd (verifyPayment e st r)) = payments st
       \<and> notifications (snd (verifyPayment e st r)) = notifications st
       \<and> fst (verifyPayment e st r) =
           (if missingFields r = []
            then InvalidSignature (razorpay_signature r) (hmac_sha256 e secret (signed_body r))
            else MissingFields (missingFields r))"
proof (cases "missingFields r = []")
  case True
  from verifyPayment_mismatch [OF assms(1) True assms(2)] True show ?thesis by simp
next
  case False
  from verifyPayment_missing [OF False] False show ?thesis by simp
qed

theorem verifyPayment_tampered_signature_frame_witness:
  "RAZORPAY_KEY_SECRET example_env = Some ''key_secret''
   \<and> razorpay_signature example_tampered
        \<noteq> Some (hmac_sha256 example_env ''key_secret'' (signed_body example_tampered))
   \<and> missingFields example_tampered = []
   \<and> fst (verifyPayment example_env example_store example_tampered)
        = InvalidSignature (Some ''forged'') ''key_secret#order_G1|pay_1''
   \<and> orders (snd (verifyPayment example_env example_store example_tampered)) = [example_order]
   \<and> payments (snd (verifyPayment example_env example_store example_tampered)) = [example_payment]"
proof -
  have s: "RAZORPAY_KEY_SECRET example_env = Some ''key_secret''"
    by (simp add: example_env_def)
  have m: "razorpay_signature example_tampered
        \<noteq> Some (hmac_sha256 example_env ''key_secret'' (signed_body example_tampered))"
    by (simp add: example_env_def example_tampered_def example_verify_def example_hmac_def signed_body_def)
  have f: "missingFields example_tampered = []"
    by (simp add: example_tampered_def example_verify_def missingFields_def)
  have h: "hmac_sha256 example_env ''key_secret'' (signed_body example_tampered) = ''key_secret#order_G1|pay_1''"
    by (simp add: example_env_def example_tampered_def example_verify_def example_hmac_def signed_body_def)
  have r: "razorpay_signature example_tampered = Some ''forged''"
    by (simp add: example_tampered_def)
  from verifyPayment_tampered_signature_frame [OF s m, of example_store] s m f h r
  show ?thesis by (simp add: example_store_def)
qed

lemma find_Some_holds: "find P xs = Some x \<Longrightarrow> P x"
  by (induction xs) (auto split: if_splits)

lemma missingFields_signature_update:
  "missingFields r = [] \<Longrightarrow> s \<noteq> [] \<Longrightarrow> missingFields (r\<lparr>razorpay_signature := Some s\<rparr>) = []"
  by (simp add: missingFields_def split: if_splits)

lemma signed_body_signature_update [simp]:
  "signed_body (r\<lparr>razorpay_signature := x\<rparr>) = signed_body r"
  by (simp add: signed_body_def)

lemma resolved_method_spec:
  "resolved_method hint m = spec_resolved_method hint m"
proof (cases m)
  case None
  then show ?thesis
    by (cases hint) (simp_all add: resolved_method_def Let_def spec_hint_or_card_def)
next
  case (Some v)
  then show ?thesis
    by (cases v; cases hint)
       (auto simp add: resolved_method_def Let_def spec_hint_or_card_def spec_method_table_def)
qed

text \<open>The example request is one that verification accepts.\<close>

lemma example_accepts:
  "RAZORPAY_KEY_SECRET example_env = Some ''key_secret''"
  "missingFields example_verify = []"
  "razorpay_signature example_verify
     = Some (hmac_sha256 example_env ''key_secret'' (signed_body example_verify))"
  "payments_fetch example_env (str_of (razorpay_payment_id example_verify))
     = Inr [(''id'', JStr ''pay_1''), (''method'', JStr ''upi_intent''), (''vpa'', JStr ''user@bank'')]"
  by (simp_all add: example_env_def example_verify_def example_hmac_def signed_body_def
        missingFields_def)

lemma example_record_found:
  "find (\<lambda>p. razorpayOrderId p = str_of (razorpay_order_id example_verify))
     (payments example_store) = Some example_payment"
  by (simp add: example_store_def example_verify_def example_payment_def)

lemma example_castable:
  "castObjectId example_env (str_of (order_id example_verify)) = Some ''64a000000000000000000001''"
  "castObjectId example_env ''64a0000000000000000000ff'' = Some ''64a0000000000000000000ff''"
  "castObjectId example_env ''64a000000000000000000002'' = Some ''64a000000000000000000002''"
  "castObjectId example_env ''64A000000000000000000001'' = Some ''64a000000000000000000001''"
  "castObjectId example_env ''not-an-object-id'' = None"
  by (simp_all add: example_env_def example_verify_def example_cast_def hex24_def is_hex_def
        is_digit_def lower_hex_def)

text \<open>
  The example request with an \<^verbatim>\<open>order_id\<close> that is no ObjectId: the answer is the
  failure, the payment record is completed, the order is as it was.
\<close>

lemma example_cast_error_run:
  "fst (verifyPayment example_env example_store
          (example_verify\<lparr>order_id := Some ''not-an-object-id''\<rparr>)) = VerificationFailed
   \<and> map p_status (payments (snd (verifyPayment example_env example_store
          (example_verify\<lparr>order_id := Some ''not-an-object-id''\<rparr>)))) = [Completed]
   \<and> orders (snd (verifyPayment example_env example_store
          (example_verify\<lparr>order_id := Some ''not-an-object-id''\<rparr>))) = [example_order]"
  by (simp add: verifyPayment_def Let_def missingFields_def signed_body_def example_env_def
        example_verify_def example_hmac_def example_store_def example_payment_def
        example_cast_def hex24_def log_error_def)

text \<open>
  C9. When the four identifiers are present and the signature does not match, the body
  of the invalid-signature response carries, next to the signature received, the
  expected one: the keyed hash of \<^verbatim>\<open>razorpay_order_id|razorpay_payment_id\<close> under the
  gateway's secret. That value is a signature that verification accepts for this pair
  of identifiers: the same request sent again with it is never answered with
  invalid-signature.
\<close>

theorem verifyPayment_discloses_expected_signature:
  assumes "RAZORPAY_KEY_SECRET e = Some secret"
      and "missingFields r = []"
      and "razorpay_signature r \<noteq> Some (hmac_sha256 e secret (signed_body r))"
  shows "fst (verifyPayment e st r) =
           InvalidSignature (razorpay_signature r)
             (hmac_sha256 e secret
                (str_of (razorpay_order_id r) @ ''|'' @ str_of (razorpay_payment_id r)))
       \<and> (\<forall>st' received expected.
             fst (verifyPayment e st'
                    (r\<lparr>razorpay_signature := Some (hmac_sha256 e secret (signed_body r))\<rparr>))
               \<noteq> InvalidSignature received expected)"
proof -
  let ?x = "hmac_sha256 e secret (signed_body r)"
  let ?r' = "r\<lparr>razorpay_signature := Some ?x\<rparr>"
  have a: "fst (verifyPayment e st r) = InvalidSignature (razorpay_signature r) ?x"
    using verifyPayment_mismatch [OF assms] by simp
  have b: "fst (verifyPayment e st' ?r') \<noteq> InvalidSignature received expected"
    for st' received expected
    using assms(1)
    by (auto simp add: verifyPayment_def Let_def split: option.splits sum.splits)
  from a b show ?thesis by (simp add: signed_body_def)
qed

theorem verifyPayment_discloses_expected_signature_witness:
  "RAZORPAY_KEY_SECRET example_env = Some ''key_secret''
   \<and> missingFields example_tampered = []
   \<and> razorpay_signature example_tampered
        \<noteq> Some (hmac_sha256 example_env ''key_secret'' (signed_body example_tampered))
   \<and> fst (verifyPayment example_env example_store example_tampered)
        = InvalidSignature (Some ''forged'') ''key_secret#order_G1|pay_1''
   \<and> example_tampered\<lparr>razorpay_signature := Some ''key_secret#order_G1|pay_1''\<rparr> = example_verify"
proof -
  have s: "RAZORPAY_KEY_SECRET example_env = Some ''key_secret''"
    by (simp add: example_env_def)
  have f: "missingFields example_tampered = []"
    by (simp add: example_tampered_def example_verify_def missingFields_def)
  have h: "hmac_sha256 example_env ''key_secret'' (signed_body example_tampered) = ''key_secret#order_G1|pay_1''"
    by (simp add: example_env_def example_tampered_def example_verify_def example_hmac_def signed_body_def)
  have r: "razorpay_signature example_tampered = Some ''forged''"
    by (simp add: example_tampered_def)
  have m: "razorpay_signature example_tampered
        \<noteq> Some (hmac_sha256 example_env ''key_secret'' (signed_body example_tampered))"
    by (simp add: h r)
  have i: "str_of (razorpay_order_id example_tampered) @ ''|'' @ str_of (razorpay_payment_id example_tampered) = ''order_G1|pay_1''"
    by (simp add: example_tampered_def example_verify_def)
  have u: "example_tampered\<lparr>razorpay_signature := Some ''key_secret#order_G1|pay_1''\<rparr> = example_verify"
    by (simp add: example_tampered_def example_verify_def)
  from verifyPayment_discloses_expected_signature [OF s f m, of example_store] s f m h r u
  show ?thesis by (simp add: signed_body_def example_env_def example_hmac_def i)
qed

section \<open>Verification: requests that are accepted\<close>

text \<open>
  C10. For a request with its four identifiers and a valid signature, whose payment the
  gateway returns and whose \<^verbatim>\<open>order_id\<close> is one that the Order model accepts as an
  id, the not-found response is given exactly when no payment record has the gateway
  order id; when one has it the response is the success, whether or not an order has
  the \<^verbatim>\<open>order_id\<close> of the request: if no order has that id, the orders are left as
  they were and the response is the success all the same.
\<close>

theorem verifyPayment_not_found_only_by_payment_record:
  assumes "RAZORPAY_KEY_SECRET e = Some secret"
      and "missingFields r = []"
      and "razorpay_signature r = Some (hmac_sha256 e secret (signed_body r))"
      and "payments_fetch e (str_of (razorpay_payment_id r)) = Inr rp"
      and "castObjectId e (str_of (order_id r)) = Some oid"
  shows "(fst (verifyPayment e st r) = PaymentNotFound
            \<longleftrightarrow> find (\<lambda>p. razorpayOrderId p = str_of (razorpay_order_id r)) (payments st) = None)
       \<and> (find (\<lambda>p. razorpayOrderId p = str_of (razorpay_order_id r)) (payments st) \<noteq> None
            \<longrightarrow> (\<exists>p msg. fst (verifyPayment e st r) = VerifySuccess p msg))
       \<and> ((\<forall>d\<in>set (orders st). o_id d \<noteq> oid)
            \<longrightarrow> orders (snd (verifyPayment e st r)) = orders st)"
proof (cases "find (\<lambda>p. razorpayOrderId p = str_of (razorpay_order_id r)) (payments st)")
  case None
  from verifyPayment_not_found [OF assms(1-4) None] None show ?thesis by simp
next
  case (Some p0)
  from verifyPayment_found [OF assms(1-4) Some assms(5)] Some show ?thesis
    by (simp add: Let_def update_first_no_match)
qed

theorem verifyPayment_not_found_only_by_payment_record_witness:
  "RAZORPAY_KEY_SECRET example_env = Some ''key_secret''
   \<and> missingFields (example_verify\<lparr>order_id := Some ''64a0000000000000000000ff''\<rparr>) = []
   \<and> razorpay_signature (example_verify\<lparr>order_id := Some ''64a0000000000000000000ff''\<rparr>)
       = Some (hmac_sha256 example_env ''key_secret''
                 (signed_body (example_verify\<lparr>order_id := Some ''64a0000000000000000000ff''\<rparr>)))
   \<and> castObjectId example_env
        (str_of (order_id (example_verify\<lparr>order_id := Some ''64a0000000000000000000ff''\<rparr>)))
       = Some ''64a0000000000000000000ff''
   \<and> find (\<lambda>p. razorpayOrderId p
               = str_of (razorpay_order_id (example_verify\<lparr>order_id := Some ''64a0000000000000000000ff''\<rparr>)))
        (payments example_store) \<noteq> None
   \<and> filter (\<lambda>d. o_id d = ''64a0000000000000000000ff'') (orders example_store) = []
   \<and> (\<exists>p msg. fst (verifyPayment example_env example_store
                       (example_verify\<lparr>order_id := Some ''64a0000000000000000000ff''\<rparr>)) = VerifySuccess p msg)
   \<and> orders (snd (verifyPayment example_env example_store
                       (example_verify\<lparr>order_id := Some ''64a0000000000000000000ff''\<rparr>))) = [example_order]"
proof -
  let ?r = "example_verify\<lparr>order_id := Some ''64a0000000000000000000ff''\<rparr>"
  have s: "RAZORPAY_KEY_SECRET example_env = Some ''key_secret''"
    by (simp add: example_env_def)
  have f: "missingFields ?r = []"
    by (simp add: example_verify_def missingFields_def)
  have g: "razorpay_signature ?r = Some (hmac_sha256 example_env ''key_secret'' (signed_body ?r))"
    by (simp add: example_env_def example_verify_def example_hmac_def signed_body_def)
  have p: "payments_fetch example_env (str_of (razorpay_payment_id ?r))
     = Inr [(''id'', JStr ''pay_1''), (''method'', JStr ''upi_intent''), (''vpa'', JStr ''user@bank'')]"
    by (simp add: example_env_def example_verify_def)
  have c: "castObjectId example_env (str_of (order_id ?r)) = Some ''64a0000000000000000000ff''"
    using example_castable(2) by simp
  have q: "find (\<lambda>p. razorpayOrderId p = str_of (razorpay_order_id ?r)) (payments example_store) \<noteq> None"
    by (simp add: example_store_def example_verify_def example_payment_def)
  have o: "\<forall>d\<in>set (orders example_store). o_id d \<noteq> ''64a0000000000000000000ff''"
    by (simp add: example_store_def example_order_def)
  have o': "filter (\<lambda>d. o_id d = ''64a0000000000000000000ff'') (orders example_store) = []"
    by (simp add: example_store_def example_order_def)
  have oi: "order_id ?r = Some ''64a0000000000000000000ff''" by simp
  from verifyPayment_not_found_only_by_payment_record [OF s f g p c, of example_store]
       s f g c q o o' oi
  show ?thesis by (simp add: example_store_def)
qed

text \<open>
  C5. Verification is idempotent. For a valid request (identifiers present, signature
  valid, payment returned by the gateway, payment record found, \<^verbatim>\<open>order_id\<close> one that
  the Order model accepts as an id), a first call succeeds and leaves a state in which
  a second call with the same request gives the same success response and the same
  state: the record is completed both times, with the same method and the same detail.
  The second call does not fail because the record is completed already, and it still
  checks the signature: in the state after the first call, the request with any other
  signature is rejected as invalid-signature.
\<close>

theorem verifyPayment_idempotent:
  assumes "RAZORPAY_KEY_SECRET e = Some secret"
      and "missingFields r = []"
      and "razorpay_signature r = Some (hmac_sha256 e secret (signed_body r))"
      and "payments_fetch e (str_of (razorpay_payment_id r)) = Inr rp"
      and "find (\<lambda>p. razorpayOrderId p = str_of (razorpay_order_id r)) (payments st) = Some p0"
      and "castObjectId e (str_of (order_id r)) = Some oid"
  shows "\<exists>p msg st1.
           verifyPayment e st r = (VerifySuccess p msg, st1)
         \<and> verifyPayment e st1 r = (VerifySuccess p msg, st1)
         \<and> p_status p = Completed
         \<and> paymentMethod p = resolved_method (payment_method r) (map_of rp ''method'')
         \<and> paymentDetails p = Some (payment_details_of (paymentMethod p) rp)
         \<and> find (\<lambda>p. razorpayOrderId p = str_of (razorpay_order_id r)) (payments st1) = Some p
         \<and> (\<forall>s. s \<noteq> [] \<longrightarrow> s \<noteq> hmac_sha256 e secret (signed_body r) \<longrightarrow>
               verifyPayment e st1 (r\<lparr>razorpay_signature := Some s\<rparr>)
                 = (InvalidSignature (Some s) (hmac_sha256 e secret (signed_body r)),
                    log_error ''Signature mismatch:'' st1))"
proof -
  define sel :: "payment \<Rightarrow> bool" where "sel = (\<lambda>p. razorpayOrderId p = str_of (razorpay_order_id r))"
  define resolved where "resolved = resolved_method (payment_method r) (map_of rp ''method'')"
  define upd :: "payment \<Rightarrow> payment" where "upd = (\<lambda>p. p\<lparr>razorpayPaymentId := Some (JStr (str_of (razorpay_payment_id r))),
                            razorpaySignature := razorpay_signature r,
                            p_status := Completed,
                            paymentMethod := resolved,
                            paymentDetails := Some (payment_details_of resolved rp)\<rparr>)"
  define osel :: "order \<Rightarrow> bool" where "osel = (\<lambda>d. o_id d = oid)"
  define updo :: "order \<Rightarrow> order" where "updo = (\<lambda>d. d\<lparr>pay_status := Completed,
                         pay_razorpayPaymentId := Some (JStr (str_of (razorpay_payment_id r))),
                         pay_razorpaySignature := razorpay_signature r,
                         pay_method := Some ''razorpay'',
                         pay_paymentMethod := Some resolved,
                         o_status := OrderConfirmed\<rparr>)"
  define st1 :: store where "st1 = st\<lparr>payments := update_first sel upd (payments st),
                             orders := update_first osel updo (orders st)\<rparr>"
  define msg where "msg = ''Payment successful via '' @ resolved"
  have found: "find sel (payments st) = Some p0"
    using assms(5) by (simp add: sel_def)
  have first: "verifyPayment e st r = (VerifySuccess (upd p0) msg, st1)"
    using verifyPayment_found [OF assms]
    by (simp add: Let_def sel_def resolved_def upd_def osel_def updo_def st1_def msg_def)
  have sel_upd: "sel (upd x) = sel x" for x
    by (simp add: sel_def upd_def)
  have upd_upd: "upd (upd x) = upd x" for x
    by (simp add: upd_def)
  have osel_updo: "osel (updo x) = osel x" for x
    by (simp add: osel_def updo_def)
  have updo_updo: "updo (updo x) = updo x" for x
    by (simp add: updo_def)
  have "sel p0" using found by (rule find_Some_holds)
  then have found1: "find sel (payments st1) = Some (upd p0)"
    using found by (simp add: st1_def find_update_first sel_upd)
  have same: "st1\<lparr>payments := update_first sel upd (payments st1),
                  orders := update_first osel updo (orders st1)\<rparr> = st1"
    by (simp add: st1_def update_first_idem sel_upd upd_upd osel_updo updo_updo)
  have found1': "find (\<lambda>p. razorpayOrderId p = str_of (razorpay_order_id r)) (payments st1) = Some (upd p0)"
    using found1 by (simp add: sel_def)
  have second: "verifyPayment e st1 r = (VerifySuccess (upd p0) msg, st1)"
    using verifyPayment_found [OF assms(1-4) found1' assms(6)] same upd_upd [of p0]
    by (simp add: Let_def sel_def resolved_def upd_def osel_def updo_def msg_def)
  have checked: "verifyPayment e st1 (r\<lparr>razorpay_signature := Some s\<rparr>)
                 = (InvalidSignature (Some s) (hmac_sha256 e secret (signed_body r)),
                    log_error ''Signature mismatch:'' st1)"
    if "s \<noteq> []" "s \<noteq> hmac_sha256 e secret (signed_body r)" for s
    using that assms(1,2)
    by (simp add: verifyPayment_mismatch missingFields_signature_update)
  have props: "p_status (upd p0) = Completed" "paymentMethod (upd p0) = resolved"
    "paymentDetails (upd p0) = Some (payment_details_of (paymentMethod (upd p0)) rp)"
    by (simp_all add: upd_def)
  show ?thesis
    using first second found1 checked props
    unfolding sel_def resolved_def by blast
qed

theorem verifyPayment_idempotent_witness:
  "RAZORPAY_KEY_SECRET example_env = Some ''key_secret''
   \<and> missingFields example_verify = []
   \<and> razorpay_signature example_verify
        = Some (hmac_sha256 example_env ''key_secret'' (signed_body example_verify))
   \<and> payments_fetch example_env (str_of (razorpay_payment_id example_verify))
        = Inr [(''id'', JStr ''pay_1''), (''method'', JStr ''upi_intent''), (''vpa'', JStr ''user@bank'')]
   \<and> find (\<lambda>p. razorpayOrderId p = str_of (razorpay_order_id example_verify))
        (payments example_store) = Some example_payment
   \<and> castObjectId example_env (str_of (order_id example_verify))
        = Some ''64a000000000000000000001''
   \<and> (\<exists>p msg st1.
         verifyPayment example_env example_store example_verify = (VerifySuccess p msg, st1)
       \<and> verifyPayment example_env st1 example_verify = (VerifySuccess p msg, st1)
       \<and> p_status p = Completed
       \<and> paymentMethod p = ''upi''
       \<and> paymentDetails p = Some (JObj [(''upi'', JObj [(''vpa'', JStr ''user@bank'')])]))"
proof -
  have m: "resolved_method (payment_method example_verify)
             (map_of [(''id'', JStr ''pay_1''), (''method'', JStr ''upi_intent''),
                      (''vpa'', JStr ''user@bank'')] ''method'') = ''upi''"
    by (simp add: resolved_method_def example_verify_def)
  have d: "payment_details_of ''upi''
             [(''id'', JStr ''pay_1''), (''method'', JStr ''upi_intent''),
              (''vpa'', JStr ''user@bank'')]
           = JObj [(''upi'', JObj [(''vpa'', JStr ''user@bank'')])]"
    by (simp add: payment_details_of_def js_or_def js_and_def dot_def)
  from verifyPayment_idempotent [OF example_accepts example_record_found example_castable(1)]
  obtain p msg st1 where
    "verifyPayment example_env example_store example_verify = (VerifySuccess p msg, st1)"
    "verifyPayment example_env st1 example_verify = (VerifySuccess p msg, st1)"
    "p_status p = Completed"
    "paymentMethod p = resolved_method (payment_method example_verify)
             (map_of [(''id'', JStr ''pay_1''), (''method'', JStr ''upi_intent''),
                      (''vpa'', JStr ''user@bank'')] ''method'')"
    "paymentDetails p = Some (payment_details_of (paymentMethod p)
             [(''id'', JStr ''pay_1''), (''method'', JStr ''upi_intent''),
              (''vpa'', JStr ''user@bank'')])"
    by blast
  then have "\<exists>p msg st1.
         verifyPayment example_env example_store example_verify = (VerifySuccess p msg, st1)
       \<and> verifyPayment example_env st1 example_verify = (VerifySuccess p msg, st1)
       \<and> p_status p = Completed
       \<and> paymentMethod p = ''upi''
       \<and> paymentDetails p = Some (JObj [(''upi'', JObj [(''vpa'', JStr ''user@bank'')])])"
    using m d by auto
  with example_accepts example_record_found example_castable(1) show ?thesis by simp
qed

text \<open>
  C6. For every method that the gateway reports, verification stores the method that
  the fixed table gives (\<^verbatim>\<open>upi\<close> and \<^verbatim>\<open>upi_intent\<close> to \<^verbatim>\<open>upi\<close>,
  \<^verbatim>\<open>netbanking\<close>, \<^verbatim>\<open>wallet\<close>, \<^verbatim>\<open>emi\<close> and \<^verbatim>\<open>card\<close> to themselves); for a
  method outside the table, or none, it stores the hint of the client, and \<^verbatim>\<open>card\<close>
  without a hint. Whenever the request has its identifiers and a valid signature, the
  gateway returns the payment and a payment record has the gateway order id, the record
  found under that id after the call holds that method; and when the \<^verbatim>\<open>order_id\<close> is
  one that the Order model accepts, the response is the success with that record and a
  message that names the method.
\<close>

theorem verifyPayment_method_table:
  assumes "RAZORPAY_KEY_SECRET e = Some secret"
      and "missingFields r = []"
      and "razorpay_signature r = Some (hmac_sha256 e secret (signed_body r))"
      and "payments_fetch e (str_of (razorpay_payment_id r)) = Inr rp"
      and "find (\<lambda>p. razorpayOrderId p = str_of (razorpay_order_id r)) (payments st) = Some p0"
  shows "\<exists>p. find (\<lambda>q. razorpayOrderId q = str_of (razorpay_order_id r))
                (payments (snd (verifyPayment e st r))) = Some p
            \<and> paymentMethod p = spec_resolved_method (payment_method r) (map_of rp ''method'')
            \<and> (castObjectId e (str_of (order_id r)) \<noteq> None \<longrightarrow>
                 fst (verifyPayment e st r)
                   = VerifySuccess p
                       (''Payment successful via ''
                          @ spec_resolved_method (payment_method r) (map_of rp ''method'')))"
proof -
  define resolved where "resolved = resolved_method (payment_method r) (map_of rp ''method'')"
  define upd :: "payment \<Rightarrow> payment" where
    "upd = (\<lambda>p. p\<lparr>razorpayPaymentId := Some (JStr (str_of (razorpay_payment_id r))),
                   razorpaySignature := razorpay_signature r,
                   p_status := Completed,
                   paymentMethod := resolved,
                   paymentDetails := Some (payment_details_of resolved rp)\<rparr>)"
  have held: "razorpayOrderId (upd p0) = str_of (razorpay_order_id r)"
    using find_Some_holds [OF assms(5)] by (simp add: upd_def)
  have stored: "find (\<lambda>q. razorpayOrderId q = str_of (razorpay_order_id r))
                  (update_first (\<lambda>p. razorpayOrderId p = str_of (razorpay_order_id r)) upd
                     (payments st)) = Some (upd p0)"
    using assms(5) held by (rule find_update_first)
  have tab: "paymentMethod (upd p0)
               = spec_resolved_method (payment_method r) (map_of rp ''method'')"
    by (simp add: upd_def resolved_def resolved_method_spec)
  show ?thesis
  proof (cases "castObjectId e (str_of (order_id r))")
    case None
    from verifyPayment_cast_error [OF assms None] stored tab None show ?thesis
      by (simp add: Let_def upd_def resolved_def)
  next
    case (Some oid)
    from verifyPayment_found [OF assms Some] stored tab Some show ?thesis
      by (simp add: Let_def upd_def resolved_def resolved_method_spec)
  qed
qed

theorem verifyPayment_method_table_witness:
  "RAZORPAY_KEY_SECRET example_env = Some ''key_secret''
   \<and> missingFields example_verify = []
   \<and> razorpay_signature example_verify
        = Some (hmac_sha256 example_env ''key_secret'' (signed_body example_verify))
   \<and> payments_fetch example_env (str_of (razorpay_payment_id example_verify))
        = Inr [(''id'', JStr ''pay_1''), (''method'', JStr ''upi_intent''), (''vpa'', JStr ''user@bank'')]
   \<and> find (\<lambda>p. razorpayOrderId p = str_of (razorpay_order_id example_verify))
        (payments example_store) = Some example_payment
   \<and> castObjectId example_env (str_of (order_id example_verify))
        = Some ''64a000000000000000000001''
   \<and> payment_method example_verify = Some ''card''
   \<and> (\<exists>p. find (\<lambda>q. razorpayOrderId q = ''order_G1'')
              (payments (snd (verifyPayment example_env example_store example_verify))) = Some p
          \<and> paymentMethod p = ''upi''
          \<and> fst (verifyPayment example_env example_store example_verify)
              = VerifySuccess p ''Payment successful via upi'')"
proof -
  have s: "spec_resolved_method (payment_method example_verify)
             (map_of [(''id'', JStr ''pay_1''), (''method'', JStr ''upi_intent''),
                      (''vpa'', JStr ''user@bank'')] ''method'') = ''upi''"
    by (simp add: spec_method_table_def)
  have o: "str_of (razorpay_order_id example_verify) = ''order_G1''"
          "payment_method example_verify = Some ''card''"
    by (simp_all add: example_verify_def)
  from verifyPayment_method_table [OF example_accepts example_record_found]
  obtain p where p:
    "find (\<lambda>q. razorpayOrderId q = str_of (razorpay_order_id example_verify))
       (payments (snd (verifyPayment example_env example_store example_verify))) = Some p"
    "paymentMethod p = spec_resolved_method (payment_method example_verify)
             (map_of [(''id'', JStr ''pay_1''), (''method'', JStr ''upi_intent''),
                      (''vpa'', JStr ''user@bank'')] ''method'')"
    "castObjectId example_env (str_of (order_id example_verify)) \<noteq> None \<longrightarrow>
       fst (verifyPayment example_env example_store example_verify)
         = VerifySuccess p
             (''Payment successful via ''
                @ spec_resolved_method (payment_method example_verify)
                    (map_of [(''id'', JStr ''pay_1''), (''method'', JStr ''upi_intent''),
                             (''vpa'', JStr ''user@bank'')] ''method''))"
    by blast
  have p1: "find (\<lambda>q. razorpayOrderId q = ''order_G1'')
       (payments (snd (verifyPayment example_env example_store example_verify))) = Some p"
    using p(1) unfolding o(1) .
  have p2: "paymentMethod p = ''upi''"
    using p(2) unfolding s .
  have "fst (verifyPayment example_env example_store example_verify)
         = VerifySuccess p (''Payment successful via '' @ ''upi'')"
    using p(3) example_castable(1) unfolding s by blast
  then have p3: "fst (verifyPayment example_env example_store example_verify)
         = VerifySuccess p ''Payment successful via upi''"
    by simp
  from p1 p2 p3 have "\<exists>p. find (\<lambda>q. razorpayOrderId q = ''order_G1'')
              (payments (snd (verifyPayment example_env example_store example_verify))) = Some p
          \<and> paymentMethod p = ''upi''
          \<and> fst (verifyPayment example_env example_store example_verify)
              = VerifySuccess p ''Payment successful via upi''"
    by blast
  with example_accepts example_record_found example_castable(1) o(2) show ?thesis by simp
qed

section \<open>Facts about the webhook endpoint\<close>


lemma handlePaymentWebhook_dispatch:
  "RAZORPAY_WEBHOOK_SECRET e = Some secret \<Longrightarrow>
   x_razorpay_signature w = Some (hmac_sha256 e secret (JSON_stringify (body w))) \<Longrightarrow>
   get_prop (Some (body w)) ''event'' = Some event \<Longrightarrow>
   handlePaymentWebhook e st w =
     (Received,
      if event = Some (JStr ''payment.captured'') then handlePaymentCaptured e st (body w)
      else if event = Some (JStr ''payment.failed'') then handlePaymentFailed e st (body w)
      else if event = Some (JStr ''refund.created'') then handleRefundCreated e st (body w)
      else st)"
  by (simp add: handlePaymentWebhook_def Let_def)


lemma handlePaymentCaptured_unknown_order:
  "entity_of payload ''payment'' = Some payment \<Longrightarrow>
   get_prop payment ''order_id'' = Some oid \<Longrightarrow>
   find (\<lambda>d. matches_str (pay_razorpayOrderId d) oid) (orders st) = None \<Longrightarrow>
   handlePaymentCaptured e st payload = log_error ''Order not found for payment:'' st"
  by (simp add: handlePaymentCaptured_def)

lemma handlePaymentCaptured_sink_failure:
  "entity_of payload ''payment'' = Some payment \<Longrightarrow>
   get_prop payment ''order_id'' = Some oid \<Longrightarrow>
   find (\<lambda>d. matches_str (pay_razorpayOrderId d) oid) (orders st) = Some ord \<Longrightarrow>
   \<not> notification_save e
        \<lparr>n_type = ''payment'', n_event = PaymentReceived,
         n_paymentId = dot payment ''id'', n_orderId = o_id ord,
         n_orderNumber = orderNumber ord, n_status = ''success''\<rparr> \<Longrightarrow>
   handlePaymentCaptured e st payload
     = log_error ''Error handling payment captured:''
         (log_error ''Error creating notification:'' st)"
  by (simp add: handlePaymentCaptured_def createNotification_def)

text \<open>The example events, signed over their compact serialisation, pass the check.\<close>

lemma signed_webhook_accepted:
  "RAZORPAY_WEBHOOK_SECRET example_env = Some ''webhook_secret''"
  "x_razorpay_signature (signed_webhook b)
     = Some (hmac_sha256 example_env ''webhook_secret'' (JSON_stringify (body (signed_webhook b))))"
  "RAZORPAY_WEBHOOK_SECRET example_env_sink_down = Some ''webhook_secret''"
  "x_razorpay_signature (signed_webhook b)
     = Some (hmac_sha256 example_env_sink_down ''webhook_secret''
               (JSON_stringify (body (signed_webhook b))))"
  by (simp_all add: example_env_def example_env_sink_down_def signed_webhook_def)

lemma example_events:
  "get_prop (Some (body (signed_webhook example_captured))) ''event''
     = Some (Some (JStr ''payment.captured''))"
  "get_prop (Some (body (signed_webhook example_captured_unknown))) ''event''
     = Some (Some (JStr ''payment.captured''))"
  "get_prop (Some (body (signed_webhook example_refund))) ''event''
     = Some (Some (JStr ''refund.created''))"
  "get_prop (Some (body (signed_webhook example_failed))) ''event''
     = Some (Some (JStr ''payment.failed''))"
  by (simp_all add: signed_webhook_def example_captured_def example_captured_unknown_def
        example_refund_def example_failed_def)



lemma example_captured_run:
  "handlePaymentWebhook example_env example_store (signed_webhook example_captured)
     = (Received,
        example_store\<lparr>
          orders := [example_order\<lparr>pay_status := Completed,
                       pay_razorpayPaymentId := Some (JStr ''pay_1''),
                       pay_details := Some (JObj [(''id'', JStr ''pay_1''),
                          (''order_id'', JStr ''order_G1''), (''amount'', JNum 49900)])\<rparr>],
          payments := [example_payment\<lparr>p_status := Completed,
                       razorpayPaymentId := Some (JStr ''pay_1''),
                       paymentDetails := Some (JObj [(''id'', JStr ''pay_1''),
                          (''order_id'', JStr ''order_G1''), (''amount'', JNum 49900)])\<rparr>],
          notifications := [\<lparr>n_type = ''payment'', n_event = PaymentReceived,
                       n_paymentId = Some (JStr ''pay_1''), n_orderId = ''64a000000000000000000001'',
                       n_orderNumber = ''ORD-1'', n_status = ''success''\<rparr>]\<rparr>)"
  using handlePaymentWebhook_dispatch [OF signed_webhook_accepted(1,2) example_events(1),
          of example_store]
  by (simp add: handlePaymentCaptured_def entity_of_def signed_webhook_def
        example_captured_def example_store_def example_order_def example_payment_def
        createNotification_def example_env_def dot_def)

section \<open>Webhook: the signature check\<close>




section \<open>Webhook: captured payments\<close>

text \<open>
  C7. A \<^verbatim>\<open>payment.captured\<close> event with a valid signature, whose gateway order id is
  the \<^verbatim>\<open>payment.razorpayOrderId\<close> of no stored order, is acknowledged: the handler
  does not throw, and it changes no order, no payment record and no notification. It
  writes one log line.
\<close>

theorem captured_for_unknown_order_acknowledged:
  assumes "RAZORPAY_WEBHOOK_SECRET e = Some secret"
      and "x_razorpay_signature w = Some (hmac_sha256 e secret (JSON_stringify (body w)))"
      and "get_prop (Some (body w)) ''event'' = Some (Some (JStr ''payment.captured''))"
      and "entity_of (body w) ''payment'' = Some payment"
      and "get_prop payment ''order_id'' = Some oid"
      and "find (\<lambda>d. matches_str (pay_razorpayOrderId d) oid) (orders st) = None"
  shows "fst (handlePaymentWebhook e st w) = Received
       \<and> orders (snd (handlePaymentWebhook e st w)) = orders st
       \<and> payments (snd (handlePaymentWebhook e st w)) = payments st
       \<and> notifications (snd (handlePaymentWebhook e st w)) = notifications st
       \<and> console_error (snd (handlePaymentWebhook e st w))
           = console_error st @ [''Order not found for payment:'']"
  using handlePaymentWebhook_dispatch [OF assms(1-3), of st]
        handlePaymentCaptured_unknown_order [OF assms(4-6), of e]
  by (simp add: log_error_def)

theorem captured_for_unknown_order_acknowledged_witness:
  "RAZORPAY_WEBHOOK_SECRET example_env = Some ''webhook_secret''
   \<and> x_razorpay_signature (signed_webhook example_captured_unknown)
       = Some (hmac_sha256 example_env ''webhook_secret''
                 (JSON_stringify (body (signed_webhook example_captured_unknown))))
   \<and> get_prop (Some (body (signed_webhook example_captured_unknown))) ''event''
       = Some (Some (JStr ''payment.captured''))
   \<and> entity_of (body (signed_webhook example_captured_unknown)) ''payment''
       = Some (Some (JObj [(''id'', JStr ''pay_9''), (''order_id'', JStr ''order_G9''),
                           (''amount'', JNum 100)]))
   \<and> get_prop (Some (JObj [(''id'', JStr ''pay_9''), (''order_id'', JStr ''order_G9''),
                           (''amount'', JNum 100)])) ''order_id'' = Some (Some (JStr ''order_G9''))
   \<and> find (\<lambda>d. matches_str (pay_razorpayOrderId d) (Some (JStr ''order_G9'')))
        (orders example_store) = None
   \<and> fst (handlePaymentWebhook example_env example_store
             (signed_webhook example_captured_unknown)) = Received
   \<and> orders (snd (handlePaymentWebhook example_env example_store
             (signed_webhook example_captured_unknown))) = [example_order]
   \<and> payments (snd (handlePaymentWebhook example_env example_store
             (signed_webhook example_captured_unknown))) = [example_payment]
   \<and> notifications (snd (handlePaymentWebhook example_env example_store
             (signed_webhook example_captured_unknown))) = []"
proof -
  let ?ent = "Some (JObj [(''id'', JStr ''pay_9''), (''order_id'', JStr ''order_G9''),
                           (''amount'', JNum 100)])"
  have en: "entity_of (body (signed_webhook example_captured_unknown)) ''payment'' = Some ?ent"
    by (simp add: signed_webhook_def example_captured_unknown_def entity_of_def)
  have oi: "get_prop ?ent ''order_id'' = Some (Some (JStr ''order_G9''))"
    by simp
  have nf: "find (\<lambda>d. matches_str (pay_razorpayOrderId d) (Some (JStr ''order_G9'')))
        (orders example_store) = None"
    by (simp add: example_store_def example_order_def)
  from captured_for_unknown_order_acknowledged
         [OF signed_webhook_accepted(1,2) example_events(2) en oi nf]
       signed_webhook_accepted(1) signed_webhook_accepted(2) [of example_captured_unknown]
       example_events(2) en oi nf
  show ?thesis by (simp add: example_store_def)
qed

text \<open>
  C3 does not hold of the code. \<open>createNotification\<close> is awaited before the two
  updates, inside the same \<^verbatim>\<open>try\<close>, and it throws again what it caught: when the
  notification cannot be saved, the handler logs, the event is acknowledged, and the
  order and the payment record are left as they were, so the captured payment is never
  recorded. The theorem is that run for every store and every event of this shape; the
  example after it is the concrete run, next to the same event with a working sink.
\<close>

theorem captured_notification_failure_skips_updates:
  assumes "RAZORPAY_WEBHOOK_SECRET e = Some secret"
      and "x_razorpay_signature w = Some (hmac_sha256 e secret (JSON_stringify (body w)))"
      and "get_prop (Some (body w)) ''event'' = Some (Some (JStr ''payment.captured''))"
      and "entity_of (body w) ''payment'' = Some payment"
      and "get_prop payment ''order_id'' = Some oid"
      and "find (\<lambda>d. matches_str (pay_razorpayOrderId d) oid) (orders st) = Some ord"
      and "\<not> notification_save e
              \<lparr>n_type = ''payment'', n_event = PaymentReceived,
               n_paymentId = dot payment ''id'', n_orderId = o_id ord,
               n_orderNumber = orderNumber ord, n_status = ''success''\<rparr>"
  shows "fst (handlePaymentWebhook e st w) = Received
       \<and> console_error (snd (handlePaymentWebhook e st w))
           = console_error st @ [''Error creating notification:'',
                                 ''Error handling payment captured:'']
       \<and> orders (snd (handlePaymentWebhook e st w)) = orders st
       \<and> payments (snd (handlePaymentWebhook e st w)) = payments st
       \<and> notifications (snd (handlePaymentWebhook e st w)) = notifications st"
  using handlePaymentWebhook_dispatch [OF assms(1-3), of st]
        handlePaymentCaptured_sink_failure [OF assms(4-7)]
  by (simp add: log_error_def)

theorem captured_notification_failure_skips_updates_witness:
  "RAZORPAY_WEBHOOK_SECRET example_env_sink_down = Some ''webhook_secret''
   \<and> x_razorpay_signature (signed_webhook example_captured)
       = Some (hmac_sha256 example_env_sink_down ''webhook_secret''
                 (JSON_stringify (body (signed_webhook example_captured))))
   \<and> get_prop (Some (body (signed_webhook example_captured))) ''event''
       = Some (Some (JStr ''payment.captured''))
   \<and> find (\<lambda>d. matches_str (pay_razorpayOrderId d) (Some (JStr ''order_G1'')))
        (orders example_store) = Some example_order
   \<and> fst (handlePaymentWebhook example_env_sink_down example_store
             (signed_webhook example_captured)) = Received
   \<and> console_error (snd (handlePaymentWebhook example_env_sink_down example_store
             (signed_webhook example_captured)))
       = [''Error creating notification:'', ''Error handling payment captured:'']
   \<and> map pay_status (orders (snd (handlePaymentWebhook example_env_sink_down example_store
             (signed_webhook example_captured)))) = [Pending]
   \<and> map p_status (payments (snd (handlePaymentWebhook example_env_sink_down example_store
             (signed_webhook example_captured)))) = [Pending]
   \<and> map pay_status (orders (snd (handlePaymentWebhook example_env example_store
             (signed_webhook example_captured)))) = [Completed]
   \<and> map p_status (payments (snd (handlePaymentWebhook example_env example_store
             (signed_webhook example_captured)))) = [Completed]"
proof -
  let ?ent = "Some (JObj [(''id'', JStr ''pay_1''), (''order_id'', JStr ''order_G1''),
                           (''amount'', JNum 49900)])"
  have en: "entity_of (body (signed_webhook example_captured)) ''payment'' = Some ?ent"
    by (simp add: signed_webhook_def example_captured_def entity_of_def)
  have oi: "get_prop ?ent ''order_id'' = Some (Some (JStr ''order_G1''))"
    by simp
  have fo: "find (\<lambda>d. matches_str (pay_razorpayOrderId d) (Some (JStr ''order_G1'')))
        (orders example_store) = Some example_order"
    by (simp add: example_store_def example_order_def)
  have dn: "\<not> notification_save example_env_sink_down
              \<lparr>n_type = ''payment'', n_event = PaymentReceived,
               n_paymentId = dot ?ent ''id'', n_orderId = o_id example_order,
               n_orderNumber = orderNumber example_order, n_status = ''success''\<rparr>"
    by (simp add: example_env_sink_down_def)
  have st: "map pay_status (orders example_store) = [Pending]"
           "map p_status (payments example_store) = [Pending]"
           "console_error example_store = []"
    by (simp_all add: example_store_def example_order_def example_payment_def)
  from captured_notification_failure_skips_updates
         [OF signed_webhook_accepted(3,4) example_events(1) en oi fo dn]
       signed_webhook_accepted(3) signed_webhook_accepted(4) [of example_captured]
       example_events(1) fo st
  show ?thesis by (simp add: example_captured_run)
qed

text \<open>The refund handler has the same order of steps, and the same outcome.\<close>

lemma refund_notification_failure_run:
  "map p_status (payments example_completed_store) = [Completed]
   \<and> handlePaymentWebhook example_env_sink_down example_completed_store
         (signed_webhook example_refund)
       = (Received,
          example_completed_store\<lparr>console_error :=
            [''Error creating notification:'', ''Error handling refund created:'']\<rparr>)
   \<and> map p_status (payments (snd (handlePaymentWebhook example_env example_completed_store
                                      (signed_webhook example_refund)))) = [Refunded]"
proof -
  have a: "map p_status (payments example_completed_store) = [Completed]"
    by (simp add: example_completed_store_def example_store_def)
  have b: "handlePaymentWebhook example_env_sink_down example_completed_store
         (signed_webhook example_refund)
       = (Received,
          example_completed_store\<lparr>console_error :=
            [''Error creating notification:'', ''Error handling refund created:'']\<rparr>)"
    using handlePaymentWebhook_dispatch [OF signed_webhook_accepted(3,4) example_events(3),
            of example_completed_store]
    by (simp add: handleRefundCreated_def entity_of_def signed_webhook_def
          example_refund_def example_completed_store_def example_store_def
          example_order_def example_payment_def createNotification_def
          example_env_sink_down_def example_env_def log_error_def)
  have c: "map p_status (payments (snd (handlePaymentWebhook example_env example_completed_store
                                      (signed_webhook example_refund)))) = [Refunded]"
    using handlePaymentWebhook_dispatch [OF signed_webhook_accepted(1,2) example_events(3),
            of example_completed_store]
    by (simp add: handleRefundCreated_def entity_of_def signed_webhook_def
          example_refund_def example_completed_store_def example_store_def
          example_order_def example_payment_def createNotification_def example_env_def)
  from a b c show ?thesis by simp
qed

section \<open>The refunded status\<close>

lemma list_all2_update_first:
  "(\<And>x. R x x) \<Longrightarrow> (\<And>x. R x (f x)) \<Longrightarrow> list_all2 R xs (update_first P f xs)"
  by (induction xs) (auto simp add: list_all2_refl)

lemma refunded_kept_refl [simp]: "refunded_kept ps ps"
  by (simp add: refunded_kept_def list_all2_refl)

lemma refunded_kept_append [simp]: "refunded_kept ps (ps @ qs)"
  by (simp add: refunded_kept_def list_all2_refl)

lemma refunded_kept_update_first:
  "(\<And>p. p_id (f p) = p_id p \<and> (p_status p = Refunded \<longrightarrow> p_status (f p) = Refunded)) \<Longrightarrow>
   refunded_kept ps (update_first P f ps)"
  by (simp add: refunded_kept_def list_all2_update_first)

lemma createOrder_refunded_kept:
  "refunded_kept (payments st) (payments (snd (createOrder e st r)))"
  by (auto simp add: createOrder_def Let_def refunded_kept_update_first
           split: option.splits sum.splits gateway_error.splits)

lemma handleRefundCreated_refunded_kept:
  "refunded_kept (payments st) (payments (handleRefundCreated e st payload))"
  by (auto simp add: handleRefundCreated_def createNotification_def refunded_kept_update_first
           split: option.splits)

text \<open>
  C2, as stated, fails: verification and the handlers of \<^verbatim>\<open>payment.captured\<close> and
  \<^verbatim>\<open>payment.failed\<close> do not look at the status they overwrite. In the example a
  refunded record becomes completed when it is verified again, completed when a
  captured event arrives for it, and failed when a failed event arrives for it.
\<close>

theorem refunded_is_terminal_counterexample:
  "map p_status (payments example_refunded_store) = [Refunded]
   \<and> map p_status (payments (snd (verifyPayment example_env example_refunded_store
                                      example_verify))) = [Completed]
   \<and> map p_status (payments (snd (handlePaymentWebhook example_env example_refunded_store
                                      (signed_webhook example_captured)))) = [Completed]
   \<and> map p_status (payments (snd (handlePaymentWebhook example_env example_refunded_store
                                      (signed_webhook example_failed)))) = [Failed]"
proof -
  have f: "find (\<lambda>p. razorpayOrderId p = str_of (razorpay_order_id example_verify))
             (payments example_refunded_store)
           = Some (example_payment\<lparr>p_status := Refunded,
                                    razorpayPaymentId := Some (JStr ''pay_1'')\<rparr>)"
    by (simp add: example_refunded_store_def example_store_def example_verify_def
          example_payment_def)
  have a: "map p_status (payments example_refunded_store) = [Refunded]"
    by (simp add: example_refunded_store_def example_store_def)
  have b: "map p_status (payments (snd (verifyPayment example_env example_refunded_store
                                      example_verify))) = [Completed]"
    using verifyPayment_found [OF example_accepts f example_castable(1)]
    by (simp add: Let_def example_refunded_store_def example_store_def example_verify_def
          example_payment_def)
  have c: "map p_status (payments (snd (handlePaymentWebhook example_env example_refunded_store
                                      (signed_webhook example_captured)))) = [Completed]"
    using handlePaymentWebhook_dispatch [OF signed_webhook_accepted(1,2) example_events(1),
            of example_refunded_store]
    by (simp add: handlePaymentCaptured_def entity_of_def signed_webhook_def
          example_captured_def example_refunded_store_def example_store_def
          example_order_def example_payment_def createNotification_def example_env_def dot_def)
  have d: "map p_status (payments (snd (handlePaymentWebhook example_env example_refunded_store
                                      (signed_webhook example_failed)))) = [Failed]"
    using handlePaymentWebhook_dispatch [OF signed_webhook_accepted(1,2) example_events(4),
            of example_refunded_store]
    by (simp add: handlePaymentFailed_def entity_of_def signed_webhook_def
          example_failed_def example_refunded_store_def example_store_def
          example_order_def example_payment_def createNotification_def example_env_def dot_def)
  from a b c d show ?thesis by simp
qed

text \<open>
  C2, amended. Gateway order initiation, and every webhook request whose event is not
  \<^verbatim>\<open>payment.captured\<close> or \<^verbatim>\<open>payment.failed\<close> (a \<^verbatim>\<open>refund.created\<close> event, an
  event that is not handled, a request that is rejected), keep every payment record in
  place and leave every refunded record refunded.
\<close>

theorem refunded_kept_by_initiation_and_other_events:
  "refunded_kept (payments st) (payments (snd (createOrder e st r)))
   \<and> (get_prop (Some (body w)) ''event'' \<noteq> Some (Some (JStr ''payment.captured''))
      \<and> get_prop (Some (body w)) ''event'' \<noteq> Some (Some (JStr ''payment.failed''))
      \<longrightarrow> refunded_kept (payments st) (payments (snd (handlePaymentWebhook e st w))))"
proof -
  have "refunded_kept (payments st) (payments (snd (handlePaymentWebhook e st w)))"
    if "get_prop (Some (body w)) ''event'' \<noteq> Some (Some (JStr ''payment.captured''))"
       "get_prop (Some (body w)) ''event'' \<noteq> Some (Some (JStr ''payment.failed''))"
    using that
    by (auto simp add: handlePaymentWebhook_def Let_def handleRefundCreated_refunded_kept
             split: option.splits)
  then show ?thesis
    using createOrder_refunded_kept by blast
qed

theorem refunded_kept_by_initiation_and_other_events_witness:
  "map p_status (payments example_refunded_store) = [Refunded]
   \<and> get_prop (Some (body (signed_webhook example_refund))) ''event''
        = Some (Some (JStr ''refund.created''))
   \<and> refunded_kept (payments example_refunded_store)
        (payments (snd (createOrder example_env example_refunded_store example_create)))
   \<and> map p_status (payments (snd (createOrder example_env example_refunded_store
                                      example_create))) = [Refunded, Pending]
   \<and> refunded_kept (payments example_refunded_store)
        (payments (snd (handlePaymentWebhook example_env example_refunded_store
                          (signed_webhook example_refund))))
   \<and> map p_status (payments (snd (handlePaymentWebhook example_env example_refunded_store
                                      (signed_webhook example_refund)))) = [Refunded]"
proof -
  have a: "map p_status (payments example_refunded_store) = [Refunded]"
    by (simp add: example_refunded_store_def example_store_def)
  have c: "map p_status (payments (snd (createOrder example_env example_refunded_store
                                      example_create))) = [Refunded, Pending]"
    by (simp add: createOrder_def Let_def example_create_def example_env_def
          example_refunded_store_def example_store_def example_payment_def
          example_cast_def hex24_def is_hex_def is_digit_def lower_hex_def)
  have d: "map p_status (payments (snd (handlePaymentWebhook example_env example_refunded_store
                                      (signed_webhook example_refund)))) = [Refunded]"
    using handlePaymentWebhook_dispatch [OF signed_webhook_accepted(1,2) example_events(3),
            of example_refunded_store]
    by (simp add: handleRefundCreated_def entity_of_def signed_webhook_def
          example_refund_def example_refunded_store_def example_store_def
          example_order_def example_payment_def createNotification_def example_env_def)
  from refunded_kept_by_initiation_and_other_events
         [of example_refunded_store example_env example_create "signed_webhook example_refund"]
       example_events(3) a c d
  show ?thesis by simp
qed

section \<open>Gateway order initiation: the amount in paise\<close>

lemma createOrder_calls_gateway:
  "amount r = Some (Fin a) \<Longrightarrow> 0 < a \<Longrightarrow> present (orderId r) \<Longrightarrow>
   gateway_calls (snd (createOrder e st r))
     = gateway_calls st @
         [\<lparr>req_amount = Math_round (js_times (Fin a) (Fin 100)),
           req_currency = (case currency r of None \<Rightarrow> ''INR'' | Some c \<Rightarrow> c),
           req_receipt = str_of (orderId r)\<rparr>]"
  by (auto simp add: createOrder_def Let_def log_error_def
           split: sum.splits gateway_error.splits option.splits)

lemma Math_round_times_100:
  "0 < a \<Longrightarrow> fl (a * 100) < 2 ^ 1024 \<Longrightarrow>
   Math_round (js_times (Fin a) (Fin 100)) = Fin (of_int (round (fl (a * 100))))"
  by (simp add: fl_num_def round_def)

text \<open>
  The number model rounds to the nearest value of the format: \<open>ilog2\<close> is the
  binary exponent, and \<open>fl x\<close> is at most half a unit in the last place from \<open>x\<close>.
\<close>

lemma round_half_even_near: "\<bar>of_int (round_half_even m) - m\<bar> \<le> 1 / 2"
proof -
  have "of_int \<lfloor>m\<rfloor> \<le> m" "m < of_int \<lfloor>m\<rfloor> + 1"
    by linarith+
  then show ?thesis
    by (auto simp add: round_half_even_def Let_def abs_le_iff)
qed

lemma ilog2_bounds:
  assumes "0 < x"
  shows "2 powi (ilog2 x) \<le> x \<and> x < 2 powi (ilog2 x + 1)"
proof (cases "1 \<le> x")
  case True
  define n where "n = \<lfloor>x\<rfloor>"
  have n: "0 < n" "of_int n \<le> x" "x < of_int n + 1"
    using True by (auto simp add: n_def) linarith+
  have b: "2 ^ nat (bitlen n - 1) \<le> n" "n < 2 ^ nat (bitlen n)"
    using bitlen_bounds [OF n(1)] by auto
  have p: "1 \<le> bitlen n"
    using n(1) by (simp add: bitlen_alt_def)
  have e: "ilog2 x = bitlen n - 1"
    using True by (simp add: ilog2_def n_def)
  have lo: "(2::rat) powi (bitlen n - 1) \<le> x"
  proof -
    have "(2::rat) powi (bitlen n - 1) = 2 ^ nat (bitlen n - 1)"
      using p by (simp add: power_int_def)
    also have "\<dots> = of_int (2 ^ nat (bitlen n - 1))" by simp
    also have "\<dots> \<le> of_int n" using b(1) by (simp only: of_int_le_iff)
    finally show ?thesis using n(2) by linarith
  qed
  have hi: "x < (2::rat) powi (bitlen n - 1 + 1)"
  proof -
    have "n + 1 \<le> 2 ^ nat (bitlen n)" using b(2) by linarith
    then have "(of_int (n + 1) :: rat) \<le> of_int (2 ^ nat (bitlen n))"
      by (simp only: of_int_le_iff)
    then have "of_int n + 1 \<le> (2::rat) ^ nat (bitlen n)" by simp
    moreover have "(2::rat) powi (bitlen n - 1 + 1) = 2 ^ nat (bitlen n)"
      using p by (simp add: power_int_def)
    ultimately show ?thesis using n(3) by linarith
  qed
  from lo hi e show ?thesis by simp
next
  case False
  define y where "y = 1 / x"
  define m where "m = \<lceil>y\<rceil>"
  have y: "1 < y" "x = 1 / y" "0 < y"
    using False assms by (auto simp add: y_def)
  have m: "of_int m - 1 < y" "y \<le> of_int m"
    by (auto simp add: m_def) linarith+
  have m2: "0 < m - 1"
  proof -
    have "(1::rat) < of_int m" using y(1) m(2) by linarith
    then have "1 < m" by simp
    then show ?thesis by simp
  qed
  define k where "k = bitlen (m - 1)"
  have b: "2 ^ nat (k - 1) \<le> m - 1" "m - 1 < 2 ^ nat k"
    using bitlen_bounds [OF m2] by (auto simp add: k_def)
  have p: "1 \<le> k"
    using m2 by (simp add: k_def bitlen_alt_def)
  have e: "ilog2 x = - k"
    using False by (simp add: ilog2_def k_def m_def y_def)
  have up: "y \<le> 2 ^ nat k"
  proof -
    have "m \<le> 2 ^ nat k" using b(2) by linarith
    then have "(of_int m :: rat) \<le> of_int (2 ^ nat k)" by (simp only: of_int_le_iff)
    then have "(of_int m :: rat) \<le> 2 ^ nat k" by simp
    then show ?thesis using m(2) by linarith
  qed
  have down: "2 ^ nat (k - 1) < y"
  proof -
    have "(of_int (2 ^ nat (k - 1)) :: rat) \<le> of_int (m - 1)"
      using b(1) by (simp only: of_int_le_iff)
    then have "(2::rat) ^ nat (k - 1) \<le> of_int m - 1" by simp
    then show ?thesis using m(1) by linarith
  qed
  have lo: "(2::rat) powi (- k) \<le> x"
  proof -
    have "(2::rat) powi (- k) = 1 / 2 ^ nat k"
      using p by (simp add: power_int_def field_simps)
    also have "\<dots> \<le> 1 / y"
      using up y(3) by (simp add: frac_le)
    finally show ?thesis using y(2) by simp
  qed
  have hi: "x < (2::rat) powi (- k + 1)"
  proof -
    have "(2::rat) powi (- k + 1) = 1 / 2 ^ nat (k - 1)"
    proof (cases "k = 1")
      case True
      then show ?thesis by simp
    next
      case False
      with p have "- k + 1 < 0" "nat (- (- k + 1)) = nat (k - 1)" by auto
      then show ?thesis by (simp add: power_int_def field_simps)
    qed
    moreover have "1 / y < 1 / 2 ^ nat (k - 1)"
      using down by (simp add: frac_less2)
    ultimately show ?thesis using y(2) by simp
  qed
  from lo hi e show ?thesis by simp
qed

lemma fl_near:
  assumes "x \<noteq> 0"
  shows "\<bar>fl x - x\<bar> \<le> 2 powi (max (ilog2 x) (- 1022) - 53)"
proof -
  define q :: rat where "q = 2 powi (max (ilog2 x) (- 1022) - 52)"
  have q: "0 < q" by (simp add: q_def)
  have h: "2 powi (max (ilog2 x) (- 1022) - 53) = q / 2"
    by (simp add: q_def power_int_diff)
  have "fl x - x = (of_int (round_half_even (x / q)) - x / q) * q"
    using assms q by (simp add: fl_def q_def [symmetric] Let_def field_simps)
  then have "\<bar>fl x - x\<bar> = \<bar>of_int (round_half_even (x / q)) - x / q\<bar> * q"
    using q by (simp add: abs_mult)
  also have "\<dots> \<le> 1 / 2 * q"
    using round_half_even_near [of "x / q"] q by (intro mult_right_mono) auto
  finally show ?thesis by (simp add: h)
qed

lemma round_half_even_down:
  "of_int k \<le> m \<Longrightarrow> m < of_int k + 1 / 2 \<Longrightarrow> round_half_even m = k"
proof -
  assume a: "of_int k \<le> m" "m < of_int k + 1 / 2"
  then have "\<lfloor>m\<rfloor> = k" by (simp add: floor_eq_iff)
  with a show ?thesis by (simp add: round_half_even_def Let_def)
qed

lemma fl_eval:
  "x \<noteq> 0 \<Longrightarrow> ilog2 x = e \<Longrightarrow> - 1022 \<le> e \<Longrightarrow>
   round_half_even (x / 2 powi (e - 52)) = k \<Longrightarrow> fl x = of_int k * 2 powi (e - 52)"
  by (simp add: fl_def Let_def max_def)

text \<open>
  The number model on a product whose value in JavaScript is well known:
  \<^verbatim>\<open>1.005 * 100\<close> is \<^verbatim>\<open>100.49999999999999\<close>, and \<^verbatim>\<open>Math.round\<close> of it is 100.
\<close>

lemma fl_1_005: "fl (1005 / 1000) = 4526117625507348 / 2 ^ 52"
proof -
  have f: "\<lfloor>1005 / 1000 :: rat\<rfloor> = 1" by (simp add: floor_eq_iff)
  have b: "bitlen 1 = 1" by (simp add: compute_bitlen)
  have i: "ilog2 (1005 / 1000) = 0"
    using f b by (simp add: ilog2_def)
  have r: "round_half_even ((1005 / 1000) / 2 powi (0 - 52)) = 4526117625507348"
    by (rule round_half_even_down) simp_all
  from fl_eval [OF _ i _ r] show ?thesis by simp
qed

lemma times_1_005: "js_times (Fin (4526117625507348 / 2 ^ 52)) (Fin 100)
                      = Fin (7072058789855231 / 2 ^ 46)"
proof -
  let ?x = "4526117625507348 / 2 ^ 52 * 100 :: rat"
  have f: "\<lfloor>?x\<rfloor> = 100" by (simp add: floor_eq_iff)
  have b: "bitlen 100 = 7" by (simp add: compute_bitlen)
  have o: "(1::rat) \<le> ?x" by simp
  have i: "ilog2 ?x = 6"
    unfolding ilog2_def using f b o by simp
  have r: "round_half_even (?x / 2 powi (6 - 52)) = 7072058789855231"
    by (rule round_half_even_down) simp_all
  have "fl ?x = 7072058789855231 / 2 ^ 46"
    using fl_eval [OF _ i _ r] by simp
  then show ?thesis by (simp add: fl_num_def)
qed

lemma round_1_005: "Math_round (Fin (7072058789855231 / 2 ^ 46)) = Fin 100"
proof -
  have "\<lfloor>7072058789855231 / 2 ^ 46 + 1 / 2 :: rat\<rfloor> = 100"
    by (simp add: floor_eq_iff)
  then show ?thesis by simp
qed

text \<open>
  C8. For every finite positive amount, with an order id, order initiation calls the
  gateway once, and the amount of that call is \<^verbatim>\<open>Math.round(amount * 100)\<close>: the
  product of the two Numbers, rounded to the nearest integer, a tie going up. Unless
  the product overflows, that is the integer \<open>round\<close> of the product: at most one half
  away from the product as the Number holds it, and from the exact product by no more
  than one half and half a unit in the last place of the product.
\<close>

theorem createOrder_minor_unit_amount:
  assumes "amount r = Some (Fin a)" and "0 < a" and "present (orderId r)"
  shows "\<exists>call. gateway_calls (snd (createOrder e st r)) = gateway_calls st @ [call]
          \<and> req_receipt call = str_of (orderId r)
          \<and> req_amount call = Math_round (js_times (Fin a) (Fin 100))
          \<and> (fl (a * 100) < 2 ^ 1024 \<longrightarrow>
                req_amount call = Fin (of_int (round (fl (a * 100))))
              \<and> \<bar>of_int (round (fl (a * 100))) - fl (a * 100)\<bar> \<le> 1 / 2
              \<and> \<bar>of_int (round (fl (a * 100))) - a * 100\<bar>
                    \<le> 1 / 2 + 2 powi (max (ilog2 (a * 100)) (- 1022) - 53))"
proof -
  let ?call = "\<lparr>req_amount = Math_round (js_times (Fin a) (Fin 100)),
                req_currency = (case currency r of None \<Rightarrow> ''INR'' | Some c \<Rightarrow> c),
                req_receipt = str_of (orderId r)\<rparr>"
  let ?n = "of_int (round (fl (a * 100))) :: rat"
  have sent: "gateway_calls (snd (createOrder e st r)) = gateway_calls st @ [?call]"
    using assms by (rule createOrder_calls_gateway)
  have near: "\<bar>?n - fl (a * 100)\<bar> \<le> 1 / 2"
    by (rule of_int_round_abs_le)
  have "a * 100 \<noteq> 0" using assms(2) by simp
  then have "\<bar>fl (a * 100) - a * 100\<bar> \<le> 2 powi (max (ilog2 (a * 100)) (- 1022) - 53)"
    by (rule fl_near)
  with near have far: "\<bar>?n - a * 100\<bar> \<le> 1 / 2 + 2 powi (max (ilog2 (a * 100)) (- 1022) - 53)"
    by linarith
  have "fl (a * 100) < 2 ^ 1024 \<longrightarrow>
          req_amount ?call = Fin ?n
        \<and> \<bar>?n - fl (a * 100)\<bar> \<le> 1 / 2
        \<and> \<bar>?n - a * 100\<bar> \<le> 1 / 2 + 2 powi (max (ilog2 (a * 100)) (- 1022) - 53)"
    using Math_round_times_100 [OF assms(2)] near far by simp
  with sent show ?thesis
    by (intro exI [of _ ?call]) simp
qed

theorem createOrder_minor_unit_amount_witness:
  "amount example_create = Some (Fin 499) \<and> (0::rat) < 499 \<and> present (orderId example_create)
   \<and> fl (499 * 100) < 2 ^ 1024
   \<and> gateway_calls (snd (createOrder example_env example_store example_create))
       = [\<lparr>req_amount = Fin 49900, req_currency = ''INR'', req_receipt = ''64a000000000000000000002''\<rparr>]"
proof -
  have a: "amount example_create = Some (Fin 499)" "present (orderId example_create)"
    by (simp_all add: example_create_def)
  have p: "(0::rat) < 499" by simp
  have f: "fl (499 * 100) = 49900"
    by (simp add: fl_def ilog2_def round_half_even_def Let_def compute_bitlen)
  have c: "currency example_create = None" "str_of (orderId example_create) = ''64a000000000000000000002''"
          "gateway_calls example_store = []"
    by (simp_all add: example_create_def example_store_def)
  from createOrder_minor_unit_amount [OF a(1) p a(2), of example_env example_store]
       createOrder_calls_gateway [OF a(1) p a(2), of example_env example_store] a p f c
  show ?thesis by (simp add: fl_num_def)
qed

end
